theory Spec2Isabelle
  imports Complex_Main "HOL-Library.Sublist" "HOL-Library.AList"
begin

section \<open>JavaScript values\<close>

text \<open>
  The AI processor works on the untyped value that \<^verbatim>\<open>JSON.parse\<close> returns, so the model
  keeps JavaScript values in one datatype. An object is the list of its own properties in
  insertion order; \<open>Undefined\<close> is what reading a missing property gives. Strings are lists
  of code units below 256. A number is held by its value: the program only asks whether
  it is zero (\<^verbatim>\<open>NaN\<close>, which \<^verbatim>\<open>JSON.parse\<close> never yields, is left out).
\<close>

datatype jsval =
    Undefined
  | Null
  | Bool bool
  | Num real
  | Str string
  | Arr "jsval list"
  | Obj "(string \<times> jsval) list"

datatype error = Error string | TypeError string

text \<open>Truthiness, as \<^verbatim>\<open>||\<close>, \<^verbatim>\<open>&&\<close>, \<^verbatim>\<open>!\<close> and \<^verbatim>\<open>if\<close> see a value.\<close>

fun truthy :: "jsval \<Rightarrow> bool" where
  "truthy Undefined = False"
| "truthy Null = False"
| "truthy (Bool b) = b"
| "truthy (Num r) = (r \<noteq> 0)"
| "truthy (Str s) = (s \<noteq> [])"
| "truthy (Arr xs) = True"
| "truthy (Obj props) = True"

fun typeof :: "jsval \<Rightarrow> string" where
  "typeof Undefined = ''undefined''"
| "typeof Null = ''object''"
| "typeof (Bool b) = ''boolean''"
| "typeof (Num r) = ''number''"
| "typeof (Str s) = ''string''"
| "typeof (Arr xs) = ''object''"
| "typeof (Obj props) = ''object''"

fun isArray :: "jsval \<Rightarrow> bool" where
  "isArray (Arr xs) = True"
| "isArray v = False"

text \<open>
  \<open>getprop v k\<close> is \<^verbatim>\<open>v?.k\<close> for the property names this program reads (none of them is
  a property of a primitive, of an array or of \<^verbatim>\<open>Object.prototype\<close>). The plain read
  \<^verbatim>\<open>v.k\<close> differs only on \<^verbatim>\<open>null\<close> and \<^verbatim>\<open>undefined\<close>, where it throws a TypeError;
  the functions below check for that case where the source reads without \<^verbatim>\<open>?.\<close>.
\<close>

fun getprop :: "jsval \<Rightarrow> string \<Rightarrow> jsval" where
  "getprop (Obj props) k = (case map_of props k of Some v \<Rightarrow> v | None \<Rightarrow> Undefined)"
| "getprop v k = Undefined"

text \<open>\<^verbatim>\<open>a || b\<close>\<close>

definition js_or :: "jsval \<Rightarrow> jsval \<Rightarrow> jsval" where
  "js_or a b = (if truthy a then a else b)"

text \<open>\<^verbatim>\<open>v.length\<close> compared with a number: \<^verbatim>\<open>undefined > 0\<close> is false, as \<open>0 > 0\<close> is.\<close>

fun js_length :: "jsval \<Rightarrow> nat" where
  "js_length (Arr xs) = length xs"
| "js_length (Str s) = length s"
| "js_length v = 0"

section \<open>Normalising the prescription (extractStructuredData, lines 153--168)\<close>

text \<open>
  \<^verbatim>\<open>
  .filter((med: any) => med && typeof med === 'object')
  .map((med) => ({
    medicineName: med?.medicineName || '',
    dosage: med?.dosage || '',
    duration: med?.duration || '',
    tablets: med?.tablets || ''
  }))
  .filter((med) => med.medicineName || med.dosage || med.duration || med.tablets)
  \<close>
\<close>

definition is_object_value :: "jsval \<Rightarrow> bool" where
  "is_object_value med = (truthy med \<and> typeof med = ''object'')"

definition to_medication :: "jsval \<Rightarrow> jsval" where
  "to_medication med = Obj
     [(''medicineName'', js_or (getprop med ''medicineName'') (Str [])),
      (''dosage'', js_or (getprop med ''dosage'') (Str [])),
      (''duration'', js_or (getprop med ''duration'') (Str [])),
      (''tablets'', js_or (getprop med ''tablets'') (Str []))]"

definition has_medication_data :: "jsval \<Rightarrow> bool" where
  "has_medication_data med =
     truthy (js_or (getprop med ''medicineName'')
            (js_or (getprop med ''dosage'')
            (js_or (getprop med ''duration'') (getprop med ''tablets''))))"

definition normalize_medications :: "jsval list \<Rightarrow> jsval list" where
  "normalize_medications meds =
     filter has_medication_data (map to_medication (filter is_object_value meds))"

text \<open>
  \<^verbatim>\<open>
  if (!Array.isArray(parsedData.prescription)) {
    parsedData.prescription = [];
  } else {
    parsedData.prescription = parsedData.prescription.filter(...).map(...).filter(...);
  }
  \<close>
  \<open>ensure_prescription p\<close> is the value stored back into \<^verbatim>\<open>parsedData.prescription\<close>
  when it held \<open>p\<close>.
\<close>

definition ensure_prescription :: "jsval \<Rightarrow> jsval" where
  "ensure_prescription p =
     (case p of Arr meds \<Rightarrow> Arr (normalize_medications meds) | _ \<Rightarrow> Arr [])"

section \<open>Cleaning the model's reply (extractStructuredData, line 147)\<close>

text \<open>
  \<^verbatim>\<open>result.replace(/```json\n|\n```/g, '').trim()\<close>.
  The global replace scans from the left; at each position it removes the opening marker
  (three backquotes, \<^verbatim>\<open>json\<close>, a line feed) or the closing marker (a line feed, three
  backquotes) when one starts there and goes on after it, and keeps the character otherwise.
\<close>

definition fence_open :: string where
  "fence_open = [CHR 0x60, CHR 0x60, CHR 0x60] @ ''json'' @ [CHR 0x0A]"

definition fence_close :: string where
  "fence_close = [CHR 0x0A, CHR 0x60, CHR 0x60, CHR 0x60]"

function strip_fences :: "string \<Rightarrow> string" where
  "strip_fences [] = []"
| "strip_fences (c # cs) =
     (if prefix fence_open (c # cs) then strip_fences (drop (length fence_open) (c # cs))
      else if prefix fence_close (c # cs) then strip_fences (drop (length fence_close) (c # cs))
      else c # strip_fences cs)"
  by pat_completeness auto
termination
  by (relation "measure length") (auto simp: fence_open_def fence_close_def)

text \<open>
  \<^verbatim>\<open>String.prototype.trim\<close>: the white space and line terminators of ECMAScript among the
  code units below 256 are TAB, LF, VT, FF, CR, SP and NBSP.
\<close>

definition is_space :: "char \<Rightarrow> bool" where
  "is_space c = (c \<in> set [CHR 0x09, CHR 0x0A, CHR 0x0B, CHR 0x0C, CHR 0x0D, CHR 0x20, CHR 0xA0])"

definition trim :: "string \<Rightarrow> string" where
  "trim s = rev (dropWhile is_space (rev (dropWhile is_space s)))"

text \<open>Line 142: \<^verbatim>\<open>response.choices[0]?.message?.content || '{}'\<close>\<close>

definition reply_text :: "string option \<Rightarrow> string" where
  "reply_text content =
     (case content of None \<Rightarrow> ''{}'' | Some c \<Rightarrow> if c = [] then ''{}'' else c)"

text \<open>Line 147\<close>

definition cleanResult :: "string \<Rightarrow> string" where
  "cleanResult result = trim (strip_fences result)"

section \<open>The services the processor calls\<close>

text \<open>
  The completion API, \<^verbatim>\<open>JSON.parse\<close>, the clock, the file system, the PDF parser, the OCR
  engine and the vector store's search are not code of this repository: they are the
  fields of an environment. A call that throws or rejects returns \<open>Inl\<close> of the error.
  \<^item> \<open>chat_completion req\<close> is \<^verbatim>\<open>response.choices[0]?.message?.content\<close> of the completion
    for the request \<open>req\<close>, \<open>None\<close> when there is no content (\<^verbatim>\<open>undefined\<close> or \<^verbatim>\<open>null\<close>);
  \<^item> \<open>json_parse s\<close> is \<^verbatim>\<open>JSON.parse(s)\<close>, \<open>None\<close> when it throws a SyntaxError;
  \<^item> \<open>now_iso\<close> is \<^verbatim>\<open>new Date().toISOString()\<close>; one reading of the clock serves a
    whole call of the processor.
\<close>

datatype request =
    TestConnection
  | Classify string
  | ExtractFields string
  | Summarize string

datatype call =
    Chat request
  | ReadFile string
  | PdfParse string
  | Recognize string
  | SimilaritySearch string int

record env =
  chat_completion :: "request \<Rightarrow> error + string option"
  json_parse :: "string \<Rightarrow> jsval option"
  now_iso :: string
  readFileSync :: "string \<Rightarrow> error + string"
  pdfParse :: "string \<Rightarrow> error + string"
  recognize :: "string \<Rightarrow> error + string"
  similaritySearch :: "jsval list \<Rightarrow> string \<Rightarrow> int \<Rightarrow> error + jsval list"

text \<open>\<^verbatim>\<open>new Date().toISOString().split('T')[0]\<close>\<close>

definition today :: "env \<Rightarrow> string" where
  "today sv = takeWhile (\<lambda>c. c \<noteq> CHR ''T'') (now_iso sv)"

text \<open>\<^verbatim>\<open>(error as Error).message\<close>\<close>

fun message :: "error \<Rightarrow> string" where
  "message (Error m) = m"
| "message (TypeError m) = m"

section \<open>generateSummary (lines 213--230)\<close>

text \<open>\<^verbatim>\<open>return response.choices[0]?.message?.content || ''\<close>; a failed call rejects.\<close>

definition generateSummary :: "env \<Rightarrow> string \<Rightarrow> call list \<times> (error + string)" where
  "generateSummary sv text =
     ([Chat (Summarize text)],
      (case chat_completion sv (Summarize text) of
         Inl e \<Rightarrow> Inl e
       | Inr None \<Rightarrow> Inr []
       | Inr (Some content) \<Rightarrow> Inr content))"

section \<open>extractStructuredData (lines 91--196)\<close>

text \<open>
  Lines 170--179:
  \<^verbatim>\<open>
  const formattedData = {
    patientName: parsedData.patientName || '',
    date: parsedData.date || new Date().toISOString().split('T')[0],
    doctorName: parsedData.doctorName || '',
    diagnosis: parsedData.diagnosis || '',
    prescription: parsedData.prescription || [],
    notes: parsedData.notes || '',
    recordType: parsedData.recordType || 'prescription'
  };
  \<close>
\<close>

definition formattedData :: "string \<Rightarrow> jsval \<Rightarrow> jsval" where
  "formattedData date_now parsedData = Obj
     [(''patientName'', js_or (getprop parsedData ''patientName'') (Str [])),
      (''date'', js_or (getprop parsedData ''date'') (Str date_now)),
      (''doctorName'', js_or (getprop parsedData ''doctorName'') (Str [])),
      (''diagnosis'', js_or (getprop parsedData ''diagnosis'') (Str [])),
      (''prescription'', js_or (getprop parsedData ''prescription'') (Arr [])),
      (''notes'', js_or (getprop parsedData ''notes'') (Str [])),
      (''recordType'', js_or (getprop parsedData ''recordType'') (Str ''prescription''))]"

text \<open>
  Lines 153--179 on the parsed value. Reading \<^verbatim>\<open>parsedData.prescription\<close> throws a
  TypeError when \<^verbatim>\<open>parsedData\<close> is \<^verbatim>\<open>null\<close>; the assignment
  \<^verbatim>\<open>parsedData.prescription = []\<close> throws one when it is a boolean, a number or a string
  (a class body is strict code). On an object the assignment replaces the property where
  it stands or adds it at the end; on an array (which has no property of that name after
  parsing) it adds the only named property that the reads of lines 172--178 can see.
\<close>

definition format_parsed :: "string \<Rightarrow> jsval \<Rightarrow> error + jsval" where
  "format_parsed date_now parsedData =
     (case parsedData of
        Undefined \<Rightarrow> Inl (TypeError ''Cannot read properties of undefined'')
      | Null \<Rightarrow> Inl (TypeError ''Cannot read properties of null'')
      | Bool b \<Rightarrow> Inl (TypeError ''Cannot create property on boolean'')
      | Num r \<Rightarrow> Inl (TypeError ''Cannot create property on number'')
      | Str s \<Rightarrow> Inl (TypeError ''Cannot create property on string'')
      | Arr xs \<Rightarrow>
          Inr (formattedData date_now
                 (Obj [(''prescription'', ensure_prescription (getprop parsedData ''prescription''))]))
      | Obj props \<Rightarrow>
          Inr (formattedData date_now
                 (Obj (AList.update ''prescription''
                         (ensure_prescription (getprop parsedData ''prescription'')) props))))"

text \<open>
  Line 182:
  \<^verbatim>\<open>formattedData.patientName || formattedData.diagnosis ||
    (formattedData.prescription || []).length > 0\<close>
\<close>

definition has_meaningful_data :: "jsval \<Rightarrow> bool" where
  "has_meaningful_data fd =
     (truthy (getprop fd ''patientName'') \<or> truthy (getprop fd ''diagnosis'')
      \<or> js_length (js_or (getprop fd ''prescription'') (Arr [])) > 0)"

text \<open>\<^verbatim>\<open>formattedData.summary = ...\<close>\<close>

fun set_summary :: "jsval \<Rightarrow> string \<Rightarrow> jsval" where
  "set_summary (Obj props) s = Obj (AList.update ''summary'' (Str s) props)"
| "set_summary v s = v"

definition parse_failure :: error where
  "parse_failure = Error ''Failed to parse AI response''"

text \<open>
  The whole method. The result is the list of service calls made, in order, and either
  the error the returned promise rejects with or the value it resolves to. The outer
  \<^verbatim>\<open>catch\<close> rethrows what it caught; the inner one, around lines 146--187 (the call of
  \<^verbatim>\<open>generateSummary\<close> included), replaces whatever was thrown by
  \<^verbatim>\<open>new Error('Failed to parse AI response')\<close>.
\<close>

definition extractStructuredData :: "env \<Rightarrow> string \<Rightarrow> call list \<times> (error + jsval)" where
  "extractStructuredData sv text =
     (case chat_completion sv (ExtractFields text) of
        Inl e \<Rightarrow> ([Chat (ExtractFields text)], Inl e)
      | Inr content \<Rightarrow>
          (case json_parse sv (cleanResult (reply_text content)) of
                None \<Rightarrow> ([Chat (ExtractFields text)], Inl parse_failure)
              | Some parsedData \<Rightarrow>
                  (case format_parsed (today sv) parsedData of
                     Inl e \<Rightarrow> ([Chat (ExtractFields text)], Inl parse_failure)
                   | Inr fd \<Rightarrow>
                       if has_meaningful_data fd then
                         (case generateSummary sv text of
                            (calls, Inl e) \<Rightarrow>
                              (Chat (ExtractFields text) # calls, Inl parse_failure)
                          | (calls, Inr summary) \<Rightarrow>
                              (Chat (ExtractFields text) # calls, Inr (set_summary fd summary)))
                       else ([Chat (ExtractFields text)], Inr fd))))"

section \<open>extractText (lines 232--269)\<close>

record multer_file =
  path :: string
  mimetype :: string
  originalname :: string

text \<open>
  The \<^verbatim>\<open>catch\<close> of line 265 wraps whatever the body threw:
  \<^verbatim>\<open>new Error('Failed to extract text from document: ' + (error as Error).message)\<close>.
\<close>

definition extraction_failure :: "error \<Rightarrow> error" where
  "extraction_failure e = Error (''Failed to extract text from document: '' @ message e)"

definition no_text :: error where
  "no_text = Error ''No text could be extracted from the document''"

text \<open>Lines 237--258: the text of the PDF parser or of the OCR engine.\<close>

definition read_text :: "env \<Rightarrow> multer_file \<Rightarrow> call list \<times> (error + string)" where
  "read_text sv f =
     (if mimetype f = ''application/pdf'' then
        (case readFileSync sv (path f) of
           Inl e \<Rightarrow> ([ReadFile (path f)], Inl e)
         | Inr fileBuffer \<Rightarrow>
             ([ReadFile (path f), PdfParse fileBuffer], pdfParse sv fileBuffer))
      else ([Recognize (path f)], recognize sv (path f)))"

text \<open>Lines 260--268: the check \<^verbatim>\<open>!text || text.trim().length === 0\<close> and the \<^verbatim>\<open>catch\<close>.\<close>

definition extractText :: "env \<Rightarrow> multer_file \<Rightarrow> call list \<times> (error + string)" where
  "extractText sv f =
     (case read_text sv f of
        (calls, Inl e) \<Rightarrow> (calls, Inl (extraction_failure e))
      | (calls, Inr text) \<Rightarrow>
          if text = [] \<or> length (trim text) = 0
          then (calls, Inl (extraction_failure no_text))
          else (calls, Inr text))"

section \<open>processDocument (lines 271--310)\<close>

text \<open>
  Lines 288--293 map over the prescription without \<^verbatim>\<open>?.\<close>: reading a property of
  \<^verbatim>\<open>null\<close> or \<^verbatim>\<open>undefined\<close> throws.
\<close>

fun reformat_medications :: "jsval list \<Rightarrow> error + jsval list" where
  "reformat_medications [] = Inr []"
| "reformat_medications (med # meds) =
     (if med = Null \<or> med = Undefined then Inl (TypeError ''Cannot read properties of null'')
      else case reformat_medications meds of
             Inl e \<Rightarrow> Inl e
           | Inr rest \<Rightarrow> Inr (to_medication med # rest))"

definition medicalRecord :: "string \<Rightarrow> multer_file \<Rightarrow> string \<Rightarrow> jsval \<Rightarrow> error + jsval" where
  "medicalRecord date_now f text extractedData =
     (case (case getprop extractedData ''prescription'' of
              Arr meds \<Rightarrow> reformat_medications meds
            | _ \<Rightarrow> Inr []) of
        Inl e \<Rightarrow> Inl e
      | Inr prescription \<Rightarrow> Inr (Obj
          [(''patientName'', js_or (getprop extractedData ''patientName'') (Str [])),
           (''date'', js_or (getprop extractedData ''date'') (Str date_now)),
           (''doctorName'', js_or (getprop extractedData ''doctorName'') (Str [])),
           (''diagnosis'', js_or (getprop extractedData ''diagnosis'') (Str [])),
           (''prescription'', Arr prescription),
           (''notes'', js_or (getprop extractedData ''notes'') (Str [])),
           (''recordType'', js_or (getprop extractedData ''recordType'') (Str ''prescription'')),
           (''documentType'', js_or (getprop extractedData ''recordType'') (Str ''prescription'')),
           (''filePath'', Str (path f)),
           (''originalText'', Str text),
           (''summary'', js_or (getprop extractedData ''summary'') (Str []))]))"

definition processDocument :: "env \<Rightarrow> multer_file \<Rightarrow> call list \<times> (error + jsval)" where
  "processDocument sv f =
     (case extractText sv f of
        (calls1, Inl e) \<Rightarrow> (calls1, Inl e)
      | (calls1, Inr text) \<Rightarrow>
          (case extractStructuredData sv text of
             (calls2, Inl e) \<Rightarrow> (calls1 @ calls2, Inl e)
           | (calls2, Inr extractedData) \<Rightarrow>
               (calls1 @ calls2, medicalRecord (today sv) f text extractedData)))"

section \<open>The processor and its vector store (lines 26--35, 313--316)\<close>

text \<open>
  The state of an \<^verbatim>\<open>AIProcessor\<close> is its \<^verbatim>\<open>vectorStore\<close>, created empty by the
  constructor. \<^verbatim>\<open>searchSimilarDocuments\<close> hands the store, the query and the limit
  (5 when the argument is left out) to the library's search.
\<close>

record processor =
  vectorStore :: "jsval list"

definition new_processor :: processor where
  "new_processor = \<lparr>vectorStore = []\<rparr>"

definition searchSimilarDocuments ::
  "env \<Rightarrow> processor \<Rightarrow> string \<Rightarrow> int option \<Rightarrow> processor \<times> call list \<times> (error + jsval list)" where
  "searchSimilarDocuments sv p query limit_arg =
     (let limit = (case limit_arg of None \<Rightarrow> 5 | Some k \<Rightarrow> k)
      in (p, [SimilaritySearch query limit], similaritySearch sv (vectorStore p) query limit))"

datatype operation =
    ProcessDocument multer_file
  | SearchSimilarDocuments string "int option"

datatype outcome =
    Processed "error + jsval"
  | Found "error + jsval list"

text \<open>
  One public call on the processor, made in the environment of its moment;
  \<^verbatim>\<open>processDocument\<close> has no statement that mentions \<^verbatim>\<open>this.vectorStore\<close>.
\<close>

fun step :: "processor \<Rightarrow> env \<times> operation \<Rightarrow> processor \<times> outcome" where
  "step p (sv, ProcessDocument f) = (p, Processed (snd (processDocument sv f)))"
| "step p (sv, SearchSimilarDocuments query limit_arg) =
     (case searchSimilarDocuments sv p query limit_arg of
        (p', calls, r) \<Rightarrow> (p', Found r))"

fun run :: "processor \<Rightarrow> (env \<times> operation) list \<Rightarrow> processor \<times> outcome list" where
  "run p [] = (p, [])"
| "run p (x # xs) =
     (case step p x of (p', out) \<Rightarrow>
        (case run p' xs of (p'', outs) \<Rightarrow> (p'', out # outs)))"

text \<open>
  What the model asks of the library's search: the results are entries of the store.
\<close>

definition results_from_store :: "env \<Rightarrow> bool" where
  "results_from_store sv =
     (\<forall>store query limit rs. similaritySearch sv store query limit = Inr rs \<longrightarrow> set rs \<subseteq> set store)"

section \<open>A sample environment\<close>

text \<open>
  For the closed examples: \<open>sample_parse\<close> agrees with \<^verbatim>\<open>JSON.parse\<close> on the texts it
  lists (and knows no other), the clock reads 2026-11-02, and the two completions are the
  arguments.
\<close>

definition jane_json :: string where
  \<open>jane_json = ''{"patientName":"Jane Doe"}''\<close>

definition aspirin_json :: string where
  \<open>aspirin_json = ''{"prescription":[{"medicineName":"Aspirin"},{},"x",null]}''\<close>

definition sample_parse :: "string \<Rightarrow> jsval option" where
  "sample_parse = map_of
     [(''{}'', Obj []),
      (''null'', Null),
      (jane_json, Obj [(''patientName'', Str ''Jane Doe'')]),
      (aspirin_json,
       Obj [(''prescription'',
             Arr [Obj [(''medicineName'', Str ''Aspirin'')], Obj [], Str ''x'', Null])])]"

definition sample_env :: "(error + string option) \<Rightarrow> (error + string option) \<Rightarrow> env" where
  "sample_env extraction_reply summary_reply =
     \<lparr>chat_completion = (\<lambda>req. case req of
          ExtractFields text \<Rightarrow> extraction_reply
        | Summarize text \<Rightarrow> summary_reply
        | _ \<Rightarrow> Inr None),
      json_parse = sample_parse,
      now_iso = ''2026-11-02T09:30:00.000Z'',
      readFileSync = (\<lambda>p. Inr ''%PDF-1.4''),
      pdfParse = (\<lambda>buffer. Inr ''Patient: John Smith''),
      recognize = (\<lambda>p. Inr ''Patient: Jane Doe''),
      similaritySearch = (\<lambda>store query limit. Inr (take (nat limit) store))\<rparr>"

section \<open>Vocabulary of the statements\<close>

text \<open>The own property names of an object, in order.\<close>

fun object_keys :: "jsval \<Rightarrow> string list" where
  "object_keys (Obj props) = map fst props"
| "object_keys v = []"

text \<open>The four canonical fields of a medication, and a medication all of whose fields are
  the empty string.\<close>

definition medication_fields :: "string list" where
  "medication_fields = [''medicineName'', ''dosage'', ''duration'', ''tablets'']"

definition all_fields_empty :: "jsval \<Rightarrow> bool" where
  "all_fields_empty med = list_all (\<lambda>k. getprop med k = Str []) medication_fields"

text \<open>
  The seven keys of lines 172--178, each with the right operand of its \<^verbatim>\<open>||\<close>: the default
  of \<^verbatim>\<open>date\<close> is the current date, that of \<^verbatim>\<open>recordType\<close> is \<^verbatim>\<open>'prescription'\<close>.
\<close>

definition declared_defaults :: "string \<Rightarrow> (string \<times> jsval) list" where
  "declared_defaults date_now =
     [(''patientName'', Str []),
      (''date'', Str date_now),
      (''doctorName'', Str []),
      (''diagnosis'', Str []),
      (''prescription'', Arr []),
      (''notes'', Str []),
      (''recordType'', Str ''prescription'')]"

text \<open>A text that \<^verbatim>\<open>trim\<close> empties: every character is white space.\<close>

definition blank :: "string \<Rightarrow> bool" where
  "blank s = list_all is_space s"

section \<open>Properties of the normalisation\<close>

lemma truthy_js_or_empty:
  "truthy (js_or v (Str [])) = truthy v"
  by (simp add: js_or_def)

lemma js_or_js_or_empty:
  "js_or (js_or v (Str [])) (Str []) = js_or v (Str [])"
  by (simp add: js_or_def)

lemma truthy_js_or:
  "truthy (js_or a b) = (truthy a \<or> truthy b)"
  by (simp add: js_or_def)

lemma is_object_value_to_medication:
  "is_object_value (to_medication med)"
  by (simp add: is_object_value_def to_medication_def)

lemma to_medication_idem:
  "to_medication (to_medication med) = to_medication med"
  by (simp add: to_medication_def js_or_js_or_empty)

lemma normalize_medications_fixed:
  "normalize_medications (map to_medication xs) =
     filter has_medication_data (map to_medication xs)"
proof -
  have "filter is_object_value (map to_medication xs) = map to_medication xs"
    by (induction xs) (simp_all add: is_object_value_to_medication)
  moreover have "map to_medication (map to_medication xs) = map to_medication xs"
    by (induction xs) (simp_all add: to_medication_idem)
  ultimately show ?thesis
    unfolding normalize_medications_def by (simp only:)
qed

lemma filter_has_data_to_medication:
  "\<exists>ys. filter has_medication_data (map to_medication xs) = map to_medication ys
        \<and> list_all has_medication_data (map to_medication ys)"
proof (induction xs)
  case Nil
  show ?case by (rule exI [of _ "[]"]) simp
next
  case (Cons x xs)
  then obtain ys where ys:
    "filter has_medication_data (map to_medication xs) = map to_medication ys"
    "list_all has_medication_data (map to_medication ys)"
    by blast
  show ?case
  proof (cases "has_medication_data (to_medication x)")
    case True
    with ys show ?thesis by (intro exI [of _ "x # ys"]) simp
  next
    case False
    with ys show ?thesis by (intro exI [of _ ys]) simp
  qed
qed

text \<open>
  C6. Medication normalisation is idempotent: normalising an already normalised medication
  sequence gives that same sequence, \<open>normalize (normalize s) = normalize s\<close>, for every
  sequence \<open>s\<close> of values.
\<close>

theorem normalize_medications_idempotent:
  "normalize_medications (normalize_medications meds) = normalize_medications meds"
proof -
  obtain ys where ys:
    "normalize_medications meds = map to_medication ys"
    "list_all has_medication_data (map to_medication ys)"
    using filter_has_data_to_medication [of "filter is_object_value meds"]
    by (auto simp: normalize_medications_def)
  have "normalize_medications (map to_medication ys) =
          filter has_medication_data (map to_medication ys)"
    by (rule normalize_medications_fixed)
  also have "\<dots> = map to_medication ys"
    using ys(2) by (simp add: list_all_iff)
  finally show ?thesis
    by (simp add: ys(1))
qed

theorem normalize_medications_idempotent_witness:
  "normalize_medications
     [Obj [(''medicineName'', Str ''Aspirin''), (''tablets'', Num 10)], Obj [], Null]
     = [Obj [(''medicineName'', Str ''Aspirin''), (''dosage'', Str []),
             (''duration'', Str []), (''tablets'', Num 10)]]
   \<and> normalize_medications
       [Obj [(''medicineName'', Str ''Aspirin''), (''dosage'', Str []),
             (''duration'', Str []), (''tablets'', Num 10)]]
     = [Obj [(''medicineName'', Str ''Aspirin''), (''dosage'', Str []),
             (''duration'', Str []), (''tablets'', Num 10)]]"
proof -
  have first: "normalize_medications
     [Obj [(''medicineName'', Str ''Aspirin''), (''tablets'', Num 10)], Obj [], Null]
     = [Obj [(''medicineName'', Str ''Aspirin''), (''dosage'', Str []),
             (''duration'', Str []), (''tablets'', Num 10)]]"
    by (simp add: normalize_medications_def is_object_value_def to_medication_def
        has_medication_data_def js_or_def)
  from normalize_medications_idempotent
    [of "[Obj [(''medicineName'', Str ''Aspirin''), (''tablets'', Num 10)], Obj [], Null]"]
  show ?thesis
    unfolding first by (simp add: first)
qed

section \<open>The prescription step\<close>

lemma js_or_empty_cases:
  "js_or v (Str []) = Str [] \<longleftrightarrow> \<not> truthy v"
  by (cases v) (auto simp: js_or_def)

lemma has_medication_data_iff:
  "has_medication_data (to_medication med) \<longleftrightarrow> \<not> all_fields_empty (to_medication med)"
  by (simp add: has_medication_data_def all_fields_empty_def medication_fields_def
      to_medication_def truthy_js_or truthy_js_or_empty js_or_empty_cases)

lemma to_medication_not_object:
  "\<not> is_object_value med \<Longrightarrow> all_fields_empty (to_medication med)"
  by (cases med)
    (simp_all add: is_object_value_def all_fields_empty_def medication_fields_def
      to_medication_def js_or_def)

lemma normalize_medications_eq:
  "normalize_medications meds =
     filter (\<lambda>m. \<not> all_fields_empty m) (map to_medication meds)"
proof (induction meds)
  case Nil
  show ?case by (simp add: normalize_medications_def)
next
  case (Cons med meds)
  then have IH: "filter has_medication_data (map to_medication (filter is_object_value meds)) =
      filter (\<lambda>m. \<not> all_fields_empty m) (map to_medication meds)"
    by (simp add: normalize_medications_def)
  show ?case
  proof (cases "is_object_value med")
    case True
    then show ?thesis
      using IH by (simp add: normalize_medications_def has_medication_data_iff)
  next
    case False
    then show ?thesis
      using IH to_medication_not_object [OF False] by (simp add: normalize_medications_def)
  qed
qed

lemma object_keys_to_medication:
  "object_keys (to_medication med) = medication_fields"
  by (simp add: to_medication_def medication_fields_def)

lemma getprop_to_medication:
  "k \<in> set medication_fields \<Longrightarrow>
     getprop (to_medication med) k = js_or (getprop med k) (Str [])"
  by (auto simp: to_medication_def medication_fields_def)

section \<open>The formatted record\<close>

lemma object_keys_formattedData:
  "object_keys (formattedData d parsedData) = map fst (declared_defaults d)"
  by (simp add: formattedData_def declared_defaults_def)

lemma getprop_formattedData:
  "(k, dflt) \<in> set (declared_defaults d) \<Longrightarrow>
     getprop (formattedData d parsedData) k = js_or (getprop parsedData k) dflt"
  by (auto simp: formattedData_def declared_defaults_def)

lemma isArray_ensure_prescription:
  "\<exists>meds. ensure_prescription p = Arr meds"
  by (cases p) (simp_all add: ensure_prescription_def)

text \<open>What \<open>format_parsed\<close> returns, field by field.\<close>

lemma format_parsed_Inr:
  assumes "format_parsed d parsedData = Inr fd"
  shows "object_keys fd = map fst (declared_defaults d)"
    and "(k, dflt) \<in> set (declared_defaults d) \<Longrightarrow> k \<noteq> ''prescription'' \<Longrightarrow>
           getprop fd k = js_or (getprop parsedData k) dflt"
    and "getprop fd ''prescription'' = ensure_prescription (getprop parsedData ''prescription'')"
    and "getprop fd ''summary'' = Undefined"
proof -
  obtain src where fd: "fd = formattedData d src"
    and other: "\<And>k. k \<noteq> ''prescription'' \<Longrightarrow> getprop src k = getprop parsedData k"
    and presc: "getprop src ''prescription'' =
                  ensure_prescription (getprop parsedData ''prescription'')"
  proof (cases parsedData)
    case (Arr xs)
    with assms that [of "Obj [(''prescription'',
        ensure_prescription (getprop parsedData ''prescription''))]"]
    show ?thesis by (simp add: format_parsed_def)
  next
    case (Obj props)
    with assms that [of "Obj (AList.update ''prescription''
        (ensure_prescription (getprop parsedData ''prescription'')) props)"]
    show ?thesis by (simp add: format_parsed_def update_conv')
  qed (use assms in \<open>simp_all add: format_parsed_def\<close>)
  show "object_keys fd = map fst (declared_defaults d)"
    by (simp add: fd object_keys_formattedData)
  show "getprop fd k = js_or (getprop parsedData k) dflt"
    if "(k, dflt) \<in> set (declared_defaults d)" "k \<noteq> ''prescription''"
    using that by (simp add: fd getprop_formattedData other)
  obtain meds where "ensure_prescription (getprop parsedData ''prescription'') = Arr meds"
    using isArray_ensure_prescription by blast
  then show "getprop fd ''prescription'' =
      ensure_prescription (getprop parsedData ''prescription'')"
    by (simp add: fd formattedData_def presc js_or_def)
  show "getprop fd ''summary'' = Undefined"
    by (simp add: fd formattedData_def)
qed

lemma format_parsed_default:
  assumes "format_parsed d parsedData = Inr fd"
    and "(k, dflt) \<in> set (declared_defaults d)"
    and "getprop parsedData k = Undefined"
  shows "getprop fd k = dflt"
proof (cases "k = ''prescription''")
  case True
  with assms(2) have "dflt = Arr []"
    by (auto simp: declared_defaults_def)
  with True assms(3) format_parsed_Inr(3) [OF assms(1)] show ?thesis
    by (simp add: ensure_prescription_def)
next
  case False
  with format_parsed_Inr(2) [OF assms(1) assms(2)] assms(3) show ?thesis
    by (simp add: js_or_def)
qed

lemma format_parsed_is_object:
  "format_parsed d parsedData = Inr fd \<Longrightarrow> \<exists>props. fd = Obj props"
  by (cases parsedData) (auto simp: format_parsed_def formattedData_def)

text \<open>Every way in which \<open>extractStructuredData\<close> returns a record.\<close>

lemma extractStructuredData_Inr:
  assumes "extractStructuredData sv text = (calls, Inr r)"
  obtains content parsedData fd where
    "chat_completion sv (ExtractFields text) = Inr content"
    "json_parse sv (cleanResult (reply_text content)) = Some parsedData"
    "format_parsed (today sv) parsedData = Inr fd"
    "(\<not> has_meaningful_data fd \<and> r = fd \<and> calls = [Chat (ExtractFields text)])
     \<or> (has_meaningful_data fd
        \<and> (\<exists>s. snd (generateSummary sv text) = Inr s \<and> r = set_summary fd s)
        \<and> calls = [Chat (ExtractFields text), Chat (Summarize text)])"
  using assms
  by (auto simp: extractStructuredData_def generateSummary_def
      split: sum.splits option.splits if_splits prod.splits)

lemma set_summary_keys:
  assumes "object_keys fd = ks" "''summary'' \<notin> set ks" "fd = Obj props"
  shows "object_keys (set_summary fd s) = ks @ [''summary'']"
  using assms by (simp add: update_keys map_of_eq_None_iff)

lemma getprop_set_summary:
  "fd = Obj props \<Longrightarrow> k \<noteq> ''summary'' \<Longrightarrow> getprop (set_summary fd s) k = getprop fd k"
  by (simp add: update_conv')

text \<open>
  C1. Whenever extractStructuredData returns a record for an input text, the record has
  all seven keys patientName, date, doctorName, diagnosis, prescription, notes, recordType
  (and no other key but, when a summary was generated, summary), and every key that the
  parsed reply of the model omits carries its declared default.
\<close>

theorem extractStructuredData_all_keys:
  assumes "extractStructuredData sv text = (calls, Inr r)"
  shows "\<exists>content parsedData.
           chat_completion sv (ExtractFields text) = Inr content
         \<and> json_parse sv (cleanResult (reply_text content)) = Some parsedData
         \<and> (object_keys r = map fst (declared_defaults (today sv))
            \<or> object_keys r = map fst (declared_defaults (today sv)) @ [''summary''])
         \<and> (\<forall>(k, dflt) \<in> set (declared_defaults (today sv)).
               getprop parsedData k = Undefined \<longrightarrow> getprop r k = dflt)"
proof -
  from assms obtain content parsedData fd where
    c: "chat_completion sv (ExtractFields text) = Inr content"
    and p: "json_parse sv (cleanResult (reply_text content)) = Some parsedData"
    and f: "format_parsed (today sv) parsedData = Inr fd"
    and r: "r = fd \<or> (\<exists>s. r = set_summary fd s)"
    by (rule extractStructuredData_Inr) blast
  obtain props where fd: "fd = Obj props"
    using format_parsed_is_object [OF f] by blast
  have keys: "object_keys fd = map fst (declared_defaults (today sv))"
    by (rule format_parsed_Inr(1) [OF f])
  have no_summary: "''summary'' \<notin> set (map fst (declared_defaults (today sv)))"
    by (simp add: declared_defaults_def)
  have dflt: "getprop fd k = dflt"
    if "(k, dflt) \<in> set (declared_defaults (today sv))" "getprop parsedData k = Undefined"
    for k dflt
    using format_parsed_default [OF f that] .
  have not_summary: "k \<noteq> ''summary''"
    if "(k, dflt) \<in> set (declared_defaults (today sv))" for k dflt
    using that by (auto simp: declared_defaults_def)
  from r show ?thesis
  proof
    assume "r = fd"
    with c p keys dflt show ?thesis by blast
  next
    assume "\<exists>s. r = set_summary fd s"
    then obtain s where s: "r = set_summary fd s" ..
    have "object_keys r = map fst (declared_defaults (today sv)) @ [''summary'']"
      unfolding s by (rule set_summary_keys [OF keys no_summary fd])
    moreover have "getprop r k = dflt"
      if "(k, dflt) \<in> set (declared_defaults (today sv))" "getprop parsedData k = Undefined"
      for k dflt
      using dflt [OF that] not_summary [OF that(1)]
      by (simp add: s getprop_set_summary [OF fd])
    ultimately show ?thesis using c p by blast
  qed
qed

lemmas sample_simps =
  sample_env_def sample_parse_def jane_json_def aspirin_json_def today_def reply_text_def cleanResult_def
  trim_def is_space_def fence_open_def fence_close_def

lemmas extract_simps =
  extractStructuredData_def generateSummary_def format_parsed_def formattedData_def
  has_meaningful_data_def ensure_prescription_def js_or_def parse_failure_def

theorem extractStructuredData_all_keys_witness:
  "extractStructuredData (sample_env (Inr (Some jane_json)) (Inr (Some ''Visit of Jane Doe''))) ''doc''
     = ([Chat (ExtractFields ''doc''), Chat (Summarize ''doc'')],
        Inr (Obj [(''patientName'', Str ''Jane Doe''), (''date'', Str ''2026-11-02''),
                  (''doctorName'', Str []), (''diagnosis'', Str []), (''prescription'', Arr []),
                  (''notes'', Str []), (''recordType'', Str ''prescription''),
                  (''summary'', Str ''Visit of Jane Doe'')]))
   \<and> (\<exists>content parsedData.
         chat_completion (sample_env (Inr (Some jane_json)) (Inr (Some ''Visit of Jane Doe'')))
           (ExtractFields ''doc'') = Inr content
       \<and> json_parse (sample_env (Inr (Some jane_json)) (Inr (Some ''Visit of Jane Doe'')))
           (cleanResult (reply_text content)) = Some parsedData
       \<and> getprop parsedData ''doctorName'' = Undefined)"
proof -
  let ?sv = "sample_env (Inr (Some jane_json)) (Inr (Some ''Visit of Jane Doe''))"
  let ?r = "Obj [(''patientName'', Str ''Jane Doe''), (''date'', Str ''2026-11-02''),
                  (''doctorName'', Str []), (''diagnosis'', Str []), (''prescription'', Arr []),
                  (''notes'', Str []), (''recordType'', Str ''prescription''),
                  (''summary'', Str ''Visit of Jane Doe'')]"
  have run: "extractStructuredData ?sv ''doc''
      = ([Chat (ExtractFields ''doc''), Chat (Summarize ''doc'')], Inr ?r)"
    by (simp add: extract_simps sample_simps)
  have "chat_completion ?sv (ExtractFields ''doc'') = Inr (Some jane_json)"
    by (simp add: sample_env_def)
  with extractStructuredData_all_keys [OF run] run show ?thesis
    by (auto simp: sample_simps)
qed

section \<open>The record of processDocument\<close>

lemma reformat_medications_reduced:
  "reformat_medications (map to_medication xs) = Inr (map to_medication xs)"
  by (induction xs) (simp_all add: to_medication_idem, simp_all add: to_medication_def)

lemma reformat_medications_normalized:
  "reformat_medications (normalize_medications meds) = Inr (normalize_medications meds)"
proof -
  obtain ys where "normalize_medications meds = map to_medication ys"
    using filter_has_data_to_medication [of "filter is_object_value meds"]
    by (auto simp: normalize_medications_def)
  then show ?thesis
    by (simp add: reformat_medications_reduced)
qed

lemma processDocument_Inr:
  assumes "processDocument sv f = (calls, Inr m)"
  obtains calls1 doc calls2 extractedData where
    "extractText sv f = (calls1, Inr doc)"
    "extractStructuredData sv doc = (calls2, Inr extractedData)"
    "medicalRecord (today sv) f doc extractedData = Inr m"
    "calls = calls1 @ calls2"
  using assms
  by (auto simp: processDocument_def split: prod.splits sum.splits)

lemma medicalRecord_field:
  assumes "medicalRecord d f text extractedData = Inr m"
    and "(k, dflt) \<in> set (declared_defaults d)" and "k \<noteq> ''prescription''"
  shows "getprop m k = js_or (getprop extractedData k) dflt"
  using assms
  by (auto simp: medicalRecord_def declared_defaults_def split: sum.splits)

lemma medicalRecord_prescription:
  assumes "medicalRecord d f text extractedData = Inr m"
    and "getprop extractedData ''prescription'' = Arr (normalize_medications meds)"
  shows "getprop m ''prescription'' = Arr (normalize_medications meds)"
  using assms
  by (auto simp: medicalRecord_def reformat_medications_normalized split: sum.splits)

lemma ensure_prescription_normalized:
  "\<exists>meds. ensure_prescription p = Arr (normalize_medications meds)"
proof (cases p)
  case (Arr xs)
  then show ?thesis by (auto simp: ensure_prescription_def)
next
  case Undefined
  have "ensure_prescription Undefined = Arr (normalize_medications [])"
    by (simp add: ensure_prescription_def normalize_medications_def)
  with Undefined show ?thesis by blast
qed (rule exI [of _ "[]"], simp add: ensure_prescription_def normalize_medications_def)+

text \<open>
  The record that extractStructuredData returns agrees with the formatted record on every
  key but summary.
\<close>

lemma extractStructuredData_fields:
  assumes "extractStructuredData sv text = (calls, Inr r)"
  obtains content parsedData fd where
    "chat_completion sv (ExtractFields text) = Inr content"
    "json_parse sv (cleanResult (reply_text content)) = Some parsedData"
    "format_parsed (today sv) parsedData = Inr fd"
    "\<forall>k. k \<noteq> ''summary'' \<longrightarrow> getprop r k = getprop fd k"
proof -
  from assms obtain content parsedData fd where
    c: "chat_completion sv (ExtractFields text) = Inr content"
    and p: "json_parse sv (cleanResult (reply_text content)) = Some parsedData"
    and f: "format_parsed (today sv) parsedData = Inr fd"
    and r: "r = fd \<or> (\<exists>s. r = set_summary fd s)"
    by (rule extractStructuredData_Inr) blast
  obtain props where fd: "fd = Obj props"
    using format_parsed_is_object [OF f] by blast
  have "\<forall>k. k \<noteq> ''summary'' \<longrightarrow> getprop r k = getprop fd k"
    using r by (auto simp: getprop_set_summary [OF fd])
  with c p f show ?thesis by (rule that)
qed

section \<open>The prescription of the returned record\<close>

text \<open>
  C2. Prescription normalisation in extractStructuredData. In the record that
  extractStructuredData returns, the prescription is the normalised prescription of the
  parsed reply: the empty sequence when the parsed value is not an array and, of an array,
  the sequence of its elements, each reduced to an object with exactly the four canonical
  fields medicineName, dosage, duration, tablets (a missing subfield becoming the empty
  string, a string being kept), in order, without those whose four fields are all empty
  and with every one that has a non-empty field.
\<close>

theorem extractStructuredData_normalizes_prescription:
  "(extractStructuredData sv doc = (calls, Inr r) \<longrightarrow>
      (\<exists>content parsedData.
          chat_completion sv (ExtractFields doc) = Inr content
        \<and> json_parse sv (cleanResult (reply_text content)) = Some parsedData
        \<and> getprop r ''prescription'' = ensure_prescription (getprop parsedData ''prescription'')
        \<and> (\<not> isArray (getprop parsedData ''prescription'') \<longrightarrow>
             getprop r ''prescription'' = Arr [])
        \<and> (\<forall>meds. getprop parsedData ''prescription'' = Arr meds \<longrightarrow>
             getprop r ''prescription'' =
               Arr (filter (\<lambda>m. \<not> all_fields_empty m) (map to_medication meds)))))
   \<and> (format_parsed d parsed = Inr fd \<longrightarrow>
        getprop fd ''prescription'' = ensure_prescription (getprop parsed ''prescription''))
   \<and> (\<not> isArray p \<longrightarrow> ensure_prescription p = Arr [])
   \<and> ensure_prescription (Arr meds) =
       Arr (filter (\<lambda>m. \<not> all_fields_empty m) (map to_medication meds))
   \<and> object_keys (to_medication med) = medication_fields
   \<and> (\<forall>k \<in> set medication_fields.
        (getprop med k = Undefined \<longrightarrow> getprop (to_medication med) k = Str [])
        \<and> (\<forall>s. getprop med k = Str s \<longrightarrow> getprop (to_medication med) k = Str s))"
proof (intro conjI)
  have not_array: "\<not> isArray v \<longrightarrow> ensure_prescription v = Arr []" for v
    by (cases v) (simp_all add: ensure_prescription_def)
  have array: "ensure_prescription (Arr xs) =
      Arr (filter (\<lambda>m. \<not> all_fields_empty m) (map to_medication xs))" for xs
    by (simp add: ensure_prescription_def normalize_medications_eq)
  show "extractStructuredData sv doc = (calls, Inr r) \<longrightarrow>
      (\<exists>content parsedData.
          chat_completion sv (ExtractFields doc) = Inr content
        \<and> json_parse sv (cleanResult (reply_text content)) = Some parsedData
        \<and> getprop r ''prescription'' = ensure_prescription (getprop parsedData ''prescription'')
        \<and> (\<not> isArray (getprop parsedData ''prescription'') \<longrightarrow>
             getprop r ''prescription'' = Arr [])
        \<and> (\<forall>meds. getprop parsedData ''prescription'' = Arr meds \<longrightarrow>
             getprop r ''prescription'' =
               Arr (filter (\<lambda>m. \<not> all_fields_empty m) (map to_medication meds))))"
  proof
    assume "extractStructuredData sv doc = (calls, Inr r)"
    then obtain content parsedData fd' where
      c: "chat_completion sv (ExtractFields doc) = Inr content"
      and p: "json_parse sv (cleanResult (reply_text content)) = Some parsedData"
      and f: "format_parsed (today sv) parsedData = Inr fd'"
      and same: "\<forall>k. k \<noteq> ''summary'' \<longrightarrow> getprop r k = getprop fd' k"
      by (rule extractStructuredData_fields) blast
    have link: "getprop r ''prescription'' =
        ensure_prescription (getprop parsedData ''prescription'')"
      using same by (simp add: format_parsed_Inr(3) [OF f])
    have "\<not> isArray (getprop parsedData ''prescription'') \<longrightarrow>
        getprop r ''prescription'' = Arr []"
      using not_array by (simp add: link)
    moreover have "\<forall>meds. getprop parsedData ''prescription'' = Arr meds \<longrightarrow>
        getprop r ''prescription'' =
          Arr (filter (\<lambda>m. \<not> all_fields_empty m) (map to_medication meds))"
      using array by (simp add: link)
    ultimately show "\<exists>content parsedData.
          chat_completion sv (ExtractFields doc) = Inr content
        \<and> json_parse sv (cleanResult (reply_text content)) = Some parsedData
        \<and> getprop r ''prescription'' = ensure_prescription (getprop parsedData ''prescription'')
        \<and> (\<not> isArray (getprop parsedData ''prescription'') \<longrightarrow>
             getprop r ''prescription'' = Arr [])
        \<and> (\<forall>meds. getprop parsedData ''prescription'' = Arr meds \<longrightarrow>
             getprop r ''prescription'' =
               Arr (filter (\<lambda>m. \<not> all_fields_empty m) (map to_medication meds)))"
      using c p link by blast
  qed
  show "format_parsed d parsed = Inr fd \<longrightarrow>
        getprop fd ''prescription'' = ensure_prescription (getprop parsed ''prescription'')"
    using format_parsed_Inr(3) by blast
  show "\<not> isArray p \<longrightarrow> ensure_prescription p = Arr []"
    by (rule not_array)
  show "ensure_prescription (Arr meds) =
      Arr (filter (\<lambda>m. \<not> all_fields_empty m) (map to_medication meds))"
    by (rule array)
  show "object_keys (to_medication med) = medication_fields"
    by (rule object_keys_to_medication)
  show "\<forall>k \<in> set medication_fields.
        (getprop med k = Undefined \<longrightarrow> getprop (to_medication med) k = Str [])
        \<and> (\<forall>s. getprop med k = Str s \<longrightarrow> getprop (to_medication med) k = Str s)"
    by (auto simp: getprop_to_medication js_or_def)
qed

theorem extractStructuredData_normalizes_prescription_witness:
  "extractStructuredData (sample_env (Inr (Some aspirin_json)) (Inr None)) ''doc''
     = ([Chat (ExtractFields ''doc''), Chat (Summarize ''doc'')],
        Inr (Obj [(''patientName'', Str []), (''date'', Str ''2026-11-02''),
                  (''doctorName'', Str []), (''diagnosis'', Str []),
                  (''prescription'',
                   Arr [Obj [(''medicineName'', Str ''Aspirin''), (''dosage'', Str []),
                             (''duration'', Str []), (''tablets'', Str [])]]),
                  (''notes'', Str []), (''recordType'', Str ''prescription''),
                  (''summary'', Str [])]))
   \<and> json_parse (sample_env (Inr (Some aspirin_json)) (Inr None))
        (cleanResult (reply_text (Some aspirin_json)))
       = Some (Obj [(''prescription'',
                     Arr [Obj [(''medicineName'', Str ''Aspirin'')], Obj [], Str ''x'', Null])])
   \<and> Arr (filter (\<lambda>m. \<not> all_fields_empty m)
          (map to_medication [Obj [(''medicineName'', Str ''Aspirin'')], Obj [], Str ''x'', Null]))
       = Arr [Obj [(''medicineName'', Str ''Aspirin''), (''dosage'', Str []),
                   (''duration'', Str []), (''tablets'', Str [])]]
   \<and> \<not> isArray (Str ''none'')
   \<and> ensure_prescription (Str ''none'') = Arr []
   \<and> ensure_prescription
        (Arr [Obj [(''medicineName'', Str ''Aspirin'')], Obj [], Str ''x'', Null,
              Obj [(''dosage'', Str []), (''route'', Str ''oral'')]]) =
       Arr [Obj [(''medicineName'', Str ''Aspirin''), (''dosage'', Str []),
                 (''duration'', Str []), (''tablets'', Str [])]]
   \<and> ''medicineName'' \<in> set medication_fields
   \<and> getprop (Obj [(''medicineName'', Str ''Aspirin'')]) ''dosage'' = Undefined
   \<and> getprop (to_medication (Obj [(''medicineName'', Str ''Aspirin'')])) ''dosage'' = Str []
   \<and> getprop (to_medication (Obj [(''medicineName'', Str ''Aspirin'')])) ''medicineName''
       = Str ''Aspirin''"
proof -
  let ?sv = "sample_env (Inr (Some aspirin_json)) (Inr None)"
  let ?meds = "[Obj [(''medicineName'', Str ''Aspirin'')], Obj [], Str ''x'', Null]"
  let ?r = "Obj [(''patientName'', Str []), (''date'', Str ''2026-11-02''),
                  (''doctorName'', Str []), (''diagnosis'', Str []),
                  (''prescription'',
                   Arr [Obj [(''medicineName'', Str ''Aspirin''), (''dosage'', Str []),
                             (''duration'', Str []), (''tablets'', Str [])]]),
                  (''notes'', Str []), (''recordType'', Str ''prescription''),
                  (''summary'', Str [])]"
  have run: "extractStructuredData ?sv ''doc''
      = ([Chat (ExtractFields ''doc''), Chat (Summarize ''doc'')], Inr ?r)"
    by (simp add: extract_simps sample_simps normalize_medications_def is_object_value_def
        to_medication_def has_medication_data_def)
  have parsed: "json_parse ?sv (cleanResult (reply_text (Some aspirin_json)))
      = Some (Obj [(''prescription'', Arr ?meds)])"
    by (simp add: sample_simps)
  have reduced: "Arr (filter (\<lambda>m. \<not> all_fields_empty m) (map to_medication ?meds))
       = Arr [Obj [(''medicineName'', Str ''Aspirin''), (''dosage'', Str []),
                   (''duration'', Str []), (''tablets'', Str [])]]"
    by (simp add: all_fields_empty_def medication_fields_def to_medication_def js_or_def)
  from extractStructuredData_normalizes_prescription
    [of ?sv "''doc''" "[Chat (ExtractFields ''doc''), Chat (Summarize ''doc'')]" ?r
        "''2026-11-02''" "Obj []" "Obj (declared_defaults ''2026-11-02'')"
        "Str ''none''"
        "[Obj [(''medicineName'', Str ''Aspirin'')], Obj [], Str ''x'', Null,
          Obj [(''dosage'', Str []), (''route'', Str ''oral'')]]"
        "Obj [(''medicineName'', Str ''Aspirin'')]"]
    run parsed reduced
  show ?thesis
    by (simp add: all_fields_empty_def medication_fields_def to_medication_def js_or_def)
qed

text \<open>
  C5, as the code has it. In the record that processDocument returns, a top-level field
  that the parsed reply of the model omits is the empty string for patientName,
  doctorName, diagnosis and notes, the empty sequence for prescription, the string
  'prescription' for recordType and the current date (YYYY-MM-DD) for date.
\<close>

theorem processDocument_defaults:
  assumes "processDocument sv f = (calls, Inr m)"
  shows "\<exists>calls1 text content parsedData.
           extractText sv f = (calls1, Inr text)
         \<and> chat_completion sv (ExtractFields text) = Inr content
         \<and> json_parse sv (cleanResult (reply_text content)) = Some parsedData
         \<and> (\<forall>(k, dflt) \<in> set (declared_defaults (today sv)).
               getprop parsedData k = Undefined \<longrightarrow> getprop m k = dflt)"
proof -
  from assms obtain calls1 doc calls2 extractedData where
    t: "extractText sv f = (calls1, Inr doc)"
    and e: "extractStructuredData sv doc = (calls2, Inr extractedData)"
    and m: "medicalRecord (today sv) f doc extractedData = Inr m"
    by (rule processDocument_Inr)
  from e obtain content parsedData fd where
    c: "chat_completion sv (ExtractFields doc) = Inr content"
    and p: "json_parse sv (cleanResult (reply_text content)) = Some parsedData"
    and fd: "format_parsed (today sv) parsedData = Inr fd"
    and same: "\<forall>k. k \<noteq> ''summary'' \<longrightarrow> getprop extractedData k = getprop fd k"
    by (rule extractStructuredData_fields) blast
  have "getprop m k = dflt"
    if k: "(k, dflt) \<in> set (declared_defaults (today sv))"
      and u: "getprop parsedData k = Undefined" for k dflt
  proof (cases "k = ''prescription''")
    case True
    obtain meds where meds:
      "ensure_prescription (getprop parsedData ''prescription'') = Arr (normalize_medications meds)"
      using ensure_prescription_normalized by blast
    have "getprop extractedData ''prescription'' = Arr (normalize_medications meds)"
      by (simp add: same format_parsed_Inr(3) [OF fd] meds)
    then have "getprop m ''prescription'' = Arr (normalize_medications meds)"
      by (rule medicalRecord_prescription [OF m])
    moreover have "getprop fd k = dflt"
      by (rule format_parsed_default [OF fd k u])
    ultimately show ?thesis
      using True meds by (simp add: format_parsed_Inr(3) [OF fd])
  next
    case False
    from k have ns: "k \<noteq> ''summary''"
      by (auto simp: declared_defaults_def)
    have "getprop m k = js_or (getprop extractedData k) dflt"
      by (rule medicalRecord_field [OF m k False])
    also have "getprop extractedData k = js_or (getprop parsedData k) dflt"
      using same ns by (simp add: format_parsed_Inr(2) [OF fd k False])
    finally show ?thesis
      by (simp add: u js_or_def)
  qed
  with t c p show ?thesis by blast
qed

theorem processDocument_defaults_witness:
  "processDocument (sample_env (Inr (Some jane_json)) (Inr None))
      \<lparr>path = ''uploads/scan.png'', mimetype = ''image/png'', originalname = ''scan.png''\<rparr>
     = ([Recognize ''uploads/scan.png'', Chat (ExtractFields ''Patient: Jane Doe''),
         Chat (Summarize ''Patient: Jane Doe'')],
        Inr (Obj [(''patientName'', Str ''Jane Doe''), (''date'', Str ''2026-11-02''),
                  (''doctorName'', Str []), (''diagnosis'', Str []), (''prescription'', Arr []),
                  (''notes'', Str []), (''recordType'', Str ''prescription''),
                  (''documentType'', Str ''prescription''),
                  (''filePath'', Str ''uploads/scan.png''),
                  (''originalText'', Str ''Patient: Jane Doe''),
                  (''summary'', Str [])]))
   \<and> (\<exists>calls1 text content parsedData.
         extractText (sample_env (Inr (Some jane_json)) (Inr None))
           \<lparr>path = ''uploads/scan.png'', mimetype = ''image/png'', originalname = ''scan.png''\<rparr>
           = (calls1, Inr text)
       \<and> chat_completion (sample_env (Inr (Some jane_json)) (Inr None)) (ExtractFields text)
           = Inr content
       \<and> json_parse (sample_env (Inr (Some jane_json)) (Inr None))
           (cleanResult (reply_text content)) = Some parsedData
       \<and> getprop parsedData ''date'' = Undefined)"
proof -
  let ?sv = "sample_env (Inr (Some jane_json)) (Inr None)"
  let ?f = "\<lparr>path = ''uploads/scan.png'', mimetype = ''image/png'', originalname = ''scan.png''\<rparr>"
  have ocr: "extractText ?sv ?f = ([Recognize ''uploads/scan.png''], Inr ''Patient: Jane Doe'')"
    by (simp add: extractText_def read_text_def sample_env_def trim_def is_space_def)
  have fields: "extractStructuredData ?sv ''Patient: Jane Doe''
      = ([Chat (ExtractFields ''Patient: Jane Doe''), Chat (Summarize ''Patient: Jane Doe'')],
         Inr (Obj [(''patientName'', Str ''Jane Doe''), (''date'', Str ''2026-11-02''),
                  (''doctorName'', Str []), (''diagnosis'', Str []), (''prescription'', Arr []),
                  (''notes'', Str []), (''recordType'', Str ''prescription''),
                  (''summary'', Str [])]))"
    by (simp add: extract_simps sample_simps)
  have day: "today ?sv = ''2026-11-02''"
    by (simp add: today_def sample_env_def)
  have run: "processDocument ?sv ?f
     = ([Recognize ''uploads/scan.png'', Chat (ExtractFields ''Patient: Jane Doe''),
         Chat (Summarize ''Patient: Jane Doe'')],
        Inr (Obj [(''patientName'', Str ''Jane Doe''), (''date'', Str ''2026-11-02''),
                  (''doctorName'', Str []), (''diagnosis'', Str []), (''prescription'', Arr []),
                  (''notes'', Str []), (''recordType'', Str ''prescription''),
                  (''documentType'', Str ''prescription''),
                  (''filePath'', Str ''uploads/scan.png''),
                  (''originalText'', Str ''Patient: Jane Doe''),
                  (''summary'', Str [])]))"
    by (simp add: processDocument_def ocr fields medicalRecord_def js_or_def day)
  have reply: "chat_completion ?sv (ExtractFields ''Patient: Jane Doe'') = Inr (Some jane_json)"
    by (simp add: sample_env_def)
  from processDocument_defaults [OF run] ocr reply run show ?thesis
    by (auto simp: sample_simps)
qed

text \<open>
  C5, as the claim has it, fails: the model's reply omits date, and the date of the
  returned record is the current date, not the empty string.
\<close>

theorem date_default_counterexample:
  "json_parse (sample_env (Inr (Some jane_json)) (Inr None)) (cleanResult (reply_text (Some jane_json)))
     = Some (Obj [(''patientName'', Str ''Jane Doe'')])
   \<and> getprop (Obj [(''patientName'', Str ''Jane Doe'')]) ''date'' = Undefined
   \<and> snd (extractStructuredData (sample_env (Inr (Some jane_json)) (Inr None)) ''doc'')
     = Inr (Obj [(''patientName'', Str ''Jane Doe''), (''date'', Str ''2026-11-02''),
                 (''doctorName'', Str []), (''diagnosis'', Str []), (''prescription'', Arr []),
                 (''notes'', Str []), (''recordType'', Str ''prescription''),
                 (''summary'', Str [])])
   \<and> Str ''2026-11-02'' \<noteq> Str []"
  by (simp add: extract_simps sample_simps)

section \<open>The summary call\<close>

lemma js_or_Arr:
  "js_or (Arr xs) dflt = Arr xs"
  by (simp add: js_or_def)

lemma has_meaningful_data_iff:
  assumes "format_parsed d parsedData = Inr fd"
  shows "has_meaningful_data fd \<longleftrightarrow>
           (getprop fd ''patientName'' \<noteq> Str [] \<or> getprop fd ''diagnosis'' \<noteq> Str []
            \<or> getprop fd ''prescription'' \<noteq> Arr [])"
proof -
  have pn: "getprop fd ''patientName'' = js_or (getprop parsedData ''patientName'') (Str [])"
    by (rule format_parsed_Inr(2) [OF assms]) (simp_all add: declared_defaults_def)
  have dg: "getprop fd ''diagnosis'' = js_or (getprop parsedData ''diagnosis'') (Str [])"
    by (rule format_parsed_Inr(2) [OF assms]) (simp_all add: declared_defaults_def)
  obtain meds where "getprop fd ''prescription'' = Arr meds"
    using format_parsed_Inr(3) [OF assms] isArray_ensure_prescription by metis
  then show ?thesis
    by (simp add: has_meaningful_data_def pn dg truthy_js_or_empty js_or_empty_cases js_or_Arr)
qed

lemma calls_of_extractText:
  "Chat req \<notin> set (fst (extractText sv f))"
  by (auto simp: extractText_def read_text_def split: sum.splits if_splits)

text \<open>
  C3. Once the reply of the model has been parsed and normalised, the summary generator
  is called if and only if the normalised record has a non-empty patientName, a non-empty
  diagnosis or a non-empty prescription list, and the summary it returns is attached as
  summary. When the record has none of the three, no summary call is made, the record is
  returned without a summary, and the summary of the record of processDocument is the
  empty string.
\<close>

theorem summary_called_iff_meaningful:
  assumes "chat_completion sv (ExtractFields doc) = Inr content"
    and "json_parse sv (cleanResult (reply_text content)) = Some parsedData"
    and "format_parsed (today sv) parsedData = Inr fd"
  shows "(Chat (Summarize doc) \<in> set (fst (extractStructuredData sv doc)) \<longleftrightarrow>
            (getprop fd ''patientName'' \<noteq> Str [] \<or> getprop fd ''diagnosis'' \<noteq> Str []
             \<or> getprop fd ''prescription'' \<noteq> Arr []))
       \<and> (\<forall>s. Chat (Summarize doc) \<in> set (fst (extractStructuredData sv doc))
               \<and> snd (generateSummary sv doc) = Inr s \<longrightarrow>
             snd (extractStructuredData sv doc) = Inr (set_summary fd s)
             \<and> getprop (set_summary fd s) ''summary'' = Str s)
       \<and> (Chat (Summarize doc) \<notin> set (fst (extractStructuredData sv doc)) \<longrightarrow>
             snd (extractStructuredData sv doc) = Inr fd
             \<and> getprop fd ''summary'' = Undefined
             \<and> (\<forall>f calls. extractText sv f = (calls, Inr doc) \<longrightarrow>
                   (\<exists>m. snd (processDocument sv f) = Inr m \<and> getprop m ''summary'' = Str [])
                   \<and> Chat (Summarize doc) \<notin> set (fst (processDocument sv f))))"
proof -
  let ?cond = "getprop fd ''patientName'' \<noteq> Str [] \<or> getprop fd ''diagnosis'' \<noteq> Str []
             \<or> getprop fd ''prescription'' \<noteq> Arr []"
  have cond: "has_meaningful_data fd \<longleftrightarrow> ?cond"
    by (rule has_meaningful_data_iff [OF assms(3)])
  obtain props where fd: "fd = Obj props"
    using format_parsed_is_object [OF assms(3)] by blast
  have called: "Chat (Summarize doc) \<in> set (fst (extractStructuredData sv doc)) \<longleftrightarrow>
      has_meaningful_data fd"
    using assms
    by (auto simp: extractStructuredData_def generateSummary_def split: sum.splits option.splits)
  have attached: "snd (extractStructuredData sv doc) = Inr (set_summary fd s)"
    if "has_meaningful_data fd" "snd (generateSummary sv doc) = Inr s" for s
    using assms that
    by (auto simp: extractStructuredData_def generateSummary_def split: sum.splits option.splits)
  have attached_value: "getprop (set_summary fd s) ''summary'' = Str s" for s
    by (simp add: fd update_conv')
  have skipped: "extractStructuredData sv doc = ([Chat (ExtractFields doc)], Inr fd)"
    if "\<not> has_meaningful_data fd"
    using assms that by (simp add: extractStructuredData_def)
  have no_key: "getprop fd ''summary'' = Undefined"
    by (rule format_parsed_Inr(4) [OF assms(3)])
  have whole: "(\<exists>m. snd (processDocument sv f) = Inr m \<and> getprop m ''summary'' = Str [])
      \<and> Chat (Summarize doc) \<notin> set (fst (processDocument sv f))"
    if nm: "\<not> has_meaningful_data fd" and t: "extractText sv f = (calls, Inr doc)" for f calls
  proof -
    from nm cond have "getprop fd ''prescription'' = Arr []"
      by blast
    then have rec: "medicalRecord (today sv) f doc fd = Inr (Obj
          [(''patientName'', js_or (getprop fd ''patientName'') (Str [])),
           (''date'', js_or (getprop fd ''date'') (Str (today sv))),
           (''doctorName'', js_or (getprop fd ''doctorName'') (Str [])),
           (''diagnosis'', js_or (getprop fd ''diagnosis'') (Str [])),
           (''prescription'', Arr []),
           (''notes'', js_or (getprop fd ''notes'') (Str [])),
           (''recordType'', js_or (getprop fd ''recordType'') (Str ''prescription'')),
           (''documentType'', js_or (getprop fd ''recordType'') (Str ''prescription'')),
           (''filePath'', Str (path f)),
           (''originalText'', Str doc),
           (''summary'', Str [])])"
      by (simp add: medicalRecord_def no_key js_or_def)
    have calls: "Chat (Summarize doc) \<notin> set calls"
      using calls_of_extractText [of "Summarize doc" sv f] t by simp
    show ?thesis
      using calls by (simp add: processDocument_def t skipped [OF nm] rec)
  qed
  have first: "Chat (Summarize doc) \<in> set (fst (extractStructuredData sv doc)) \<longleftrightarrow> ?cond"
    using called cond by simp
  have second: "\<forall>s. Chat (Summarize doc) \<in> set (fst (extractStructuredData sv doc))
               \<and> snd (generateSummary sv doc) = Inr s \<longrightarrow>
             snd (extractStructuredData sv doc) = Inr (set_summary fd s)
             \<and> getprop (set_summary fd s) ''summary'' = Str s"
    using called attached attached_value by blast
  have third: "Chat (Summarize doc) \<notin> set (fst (extractStructuredData sv doc)) \<longrightarrow>
             snd (extractStructuredData sv doc) = Inr fd
             \<and> getprop fd ''summary'' = Undefined
             \<and> (\<forall>f calls. extractText sv f = (calls, Inr doc) \<longrightarrow>
                   (\<exists>m. snd (processDocument sv f) = Inr m \<and> getprop m ''summary'' = Str [])
                   \<and> Chat (Summarize doc) \<notin> set (fst (processDocument sv f)))"
  proof
    assume "Chat (Summarize doc) \<notin> set (fst (extractStructuredData sv doc))"
    with called have nm: "\<not> has_meaningful_data fd"
      by simp
    have "snd (extractStructuredData sv doc) = Inr fd"
      by (simp add: skipped [OF nm])
    with no_key whole [OF nm]
    show "snd (extractStructuredData sv doc) = Inr fd
             \<and> getprop fd ''summary'' = Undefined
             \<and> (\<forall>f calls. extractText sv f = (calls, Inr doc) \<longrightarrow>
                   (\<exists>m. snd (processDocument sv f) = Inr m \<and> getprop m ''summary'' = Str [])
                   \<and> Chat (Summarize doc) \<notin> set (fst (processDocument sv f)))"
      by blast
  qed
  from first second third show ?thesis
    by (intro conjI)
qed

theorem summary_called_iff_meaningful_witness:
  "chat_completion (sample_env (Inr (Some jane_json)) (Inr (Some ''Visit of Jane Doe'')))
       (ExtractFields ''doc'') = Inr (Some jane_json)
   \<and> json_parse (sample_env (Inr (Some jane_json)) (Inr (Some ''Visit of Jane Doe'')))
       (cleanResult (reply_text (Some jane_json))) = Some (Obj [(''patientName'', Str ''Jane Doe'')])
   \<and> format_parsed (today (sample_env (Inr (Some jane_json)) (Inr (Some ''Visit of Jane Doe''))))
       (Obj [(''patientName'', Str ''Jane Doe'')])
       = Inr (Obj [(''patientName'', Str ''Jane Doe''), (''date'', Str ''2026-11-02''),
                   (''doctorName'', Str []), (''diagnosis'', Str []), (''prescription'', Arr []),
                   (''notes'', Str []), (''recordType'', Str ''prescription'')])
   \<and> Chat (Summarize ''doc'') \<in> set (fst (extractStructuredData
         (sample_env (Inr (Some jane_json)) (Inr (Some ''Visit of Jane Doe''))) ''doc''))
   \<and> snd (generateSummary (sample_env (Inr (Some jane_json)) (Inr (Some ''Visit of Jane Doe'')))
         ''doc'') = Inr ''Visit of Jane Doe''
   \<and> snd (extractStructuredData
         (sample_env (Inr (Some jane_json)) (Inr (Some ''Visit of Jane Doe''))) ''doc'')
       = Inr (Obj [(''patientName'', Str ''Jane Doe''), (''date'', Str ''2026-11-02''),
                   (''doctorName'', Str []), (''diagnosis'', Str []), (''prescription'', Arr []),
                   (''notes'', Str []), (''recordType'', Str ''prescription''),
                   (''summary'', Str ''Visit of Jane Doe'')])"
proof -
  let ?sv = "sample_env (Inr (Some jane_json)) (Inr (Some ''Visit of Jane Doe''))"
  let ?fd = "Obj [(''patientName'', Str ''Jane Doe''), (''date'', Str ''2026-11-02''),
                   (''doctorName'', Str []), (''diagnosis'', Str []), (''prescription'', Arr []),
                   (''notes'', Str []), (''recordType'', Str ''prescription'')]"
  have c: "chat_completion ?sv (ExtractFields ''doc'') = Inr (Some jane_json)"
    by (simp add: sample_env_def)
  have p: "json_parse ?sv (cleanResult (reply_text (Some jane_json)))
      = Some (Obj [(''patientName'', Str ''Jane Doe'')])"
    by (simp add: sample_simps)
  have f: "format_parsed (today ?sv) (Obj [(''patientName'', Str ''Jane Doe'')]) = Inr ?fd"
    by (simp add: format_parsed_def formattedData_def ensure_prescription_def js_or_def
        today_def sample_env_def)
  have s: "snd (generateSummary ?sv ''doc'') = Inr ''Visit of Jane Doe''"
    by (simp add: generateSummary_def sample_env_def)
  from summary_called_iff_meaningful [OF c p f] c p f s show ?thesis
    by simp
qed

section \<open>When the summary call fails\<close>

lemma medicalRecord_summary:
  assumes "medicalRecord d f doc extractedData = Inr m"
  shows "getprop m ''summary'' = js_or (getprop extractedData ''summary'') (Str [])"
  using assms
  by (auto simp: medicalRecord_def split: sum.splits)

lemma getprop_summary_set_summary:
  "fd = Obj props \<Longrightarrow> getprop (set_summary fd s) ''summary'' = Str s"
  by (simp add: update_conv')

text \<open>The summary that a returned completion yields (line 229).\<close>

lemma generateSummary_returns:
  "chat_completion sv (Summarize doc) = Inr content \<Longrightarrow>
     generateSummary sv doc =
       ([Chat (Summarize doc)], Inr (case content of None \<Rightarrow> [] | Some s \<Rightarrow> s))"
  by (simp add: generateSummary_def split: option.splits)

text \<open>
  C8, as the code has it. A failure of the summary call is fatal: when the normalised
  record has meaningful data and the summary completion fails, extractStructuredData
  returns no record but fails, with the error 'Failed to parse AI response', and so does
  processDocument. When the completion returns, its content is attached as the summary
  (the empty string for a completion without content), so that the summary of the
  returned record, and of the record of processDocument, is the empty string only when
  the completion returns without content or with the empty string.
\<close>

theorem summary_failure_aborts:
  assumes "chat_completion sv (ExtractFields doc) = Inr content"
    and "json_parse sv (cleanResult (reply_text content)) = Some parsedData"
    and "format_parsed (today sv) parsedData = Inr fd"
    and "has_meaningful_data fd"
  shows "(\<forall>e. chat_completion sv (Summarize doc) = Inl e \<longrightarrow>
            extractStructuredData sv doc
              = ([Chat (ExtractFields doc), Chat (Summarize doc)], Inl parse_failure)
            \<and> (\<forall>f calls. extractText sv f = (calls, Inr doc) \<longrightarrow>
                  snd (processDocument sv f) = Inl parse_failure))
       \<and> (\<forall>reply. chat_completion sv (Summarize doc) = Inr reply \<longrightarrow>
            extractStructuredData sv doc
              = ([Chat (ExtractFields doc), Chat (Summarize doc)],
                 Inr (set_summary fd (case reply of None \<Rightarrow> [] | Some s \<Rightarrow> s)))
            \<and> getprop (set_summary fd (case reply of None \<Rightarrow> [] | Some s \<Rightarrow> s)) ''summary''
                = Str (case reply of None \<Rightarrow> [] | Some s \<Rightarrow> s))
       \<and> (chat_completion sv (Summarize doc) = Inr None \<longrightarrow>
            snd (extractStructuredData sv doc) = Inr (set_summary fd []))
       \<and> (\<forall>r. snd (extractStructuredData sv doc) = Inr r \<and> getprop r ''summary'' = Str [] \<longrightarrow>
            chat_completion sv (Summarize doc) = Inr None
            \<or> chat_completion sv (Summarize doc) = Inr (Some []))
       \<and> (\<forall>f calls m. extractText sv f = (calls, Inr doc)
              \<and> snd (processDocument sv f) = Inr m \<and> getprop m ''summary'' = Str [] \<longrightarrow>
            chat_completion sv (Summarize doc) = Inr None
            \<or> chat_completion sv (Summarize doc) = Inr (Some []))"
proof -
  obtain props where fd: "fd = Obj props"
    using format_parsed_is_object [OF assms(3)] by blast
  have fails: "extractStructuredData sv doc
      = ([Chat (ExtractFields doc), Chat (Summarize doc)], Inl parse_failure)"
    if "chat_completion sv (Summarize doc) = Inl e" for e
    using assms that by (simp add: extractStructuredData_def generateSummary_def)
  have returns: "extractStructuredData sv doc
      = ([Chat (ExtractFields doc), Chat (Summarize doc)],
         Inr (set_summary fd (case reply of None \<Rightarrow> [] | Some s \<Rightarrow> s)))"
    if "chat_completion sv (Summarize doc) = Inr reply" for reply
    using assms by (simp add: extractStructuredData_def generateSummary_returns [OF that])
  have attached: "getprop (set_summary fd s) ''summary'' = Str s" for s
    by (rule getprop_summary_set_summary [OF fd])
  have empty_reply: "reply = None \<or> reply = Some []"
    if "(case reply of None \<Rightarrow> [] | Some s \<Rightarrow> s) = ([]::string)" for reply
    using that by (cases reply) simp_all
  have only_when: "chat_completion sv (Summarize doc) = Inr None
      \<or> chat_completion sv (Summarize doc) = Inr (Some [])"
    if r: "snd (extractStructuredData sv doc) = Inr r" and e: "getprop r ''summary'' = Str []"
    for r
  proof (cases "chat_completion sv (Summarize doc)")
    case (Inl e')
    with fails [OF Inl] r show ?thesis by simp
  next
    case (Inr reply)
    from returns [OF Inr] r
    have "r = set_summary fd (case reply of None \<Rightarrow> [] | Some s \<Rightarrow> s)"
      by simp
    with e attached have "(case reply of None \<Rightarrow> [] | Some s \<Rightarrow> s) = ([]::string)"
      by simp
    from empty_reply [OF this] Inr show ?thesis
      by auto
  qed
  have whole_only_when: "chat_completion sv (Summarize doc) = Inr None
      \<or> chat_completion sv (Summarize doc) = Inr (Some [])"
    if t: "extractText sv f = (calls, Inr doc)"
      and m: "snd (processDocument sv f) = Inr m" and e: "getprop m ''summary'' = Str []"
    for f calls m
  proof (cases "chat_completion sv (Summarize doc)")
    case (Inl e')
    with fails [OF Inl] t m show ?thesis
      by (simp add: processDocument_def)
  next
    case (Inr reply)
    let ?s = "case reply of None \<Rightarrow> [] | Some s \<Rightarrow> s"
    from returns [OF Inr] t m
    have "medicalRecord (today sv) f doc (set_summary fd ?s) = Inr m"
      by (simp add: processDocument_def)
    from medicalRecord_summary [OF this] e
    have "js_or (Str ?s) (Str []) = Str []"
      by (simp add: attached)
    then have "?s = []"
      by (simp add: js_or_def split: if_splits)
    from empty_reply [OF this] Inr show ?thesis
      by auto
  qed
  have none: "snd (extractStructuredData sv doc) = Inr (set_summary fd [])"
    if "chat_completion sv (Summarize doc) = Inr None"
    using returns [OF that] by simp
  have failing_document: "snd (processDocument sv f) = Inl parse_failure"
    if "chat_completion sv (Summarize doc) = Inl e" "extractText sv f = (calls, Inr doc)"
    for e f calls
    using fails [OF that(1)] that(2) by (simp add: processDocument_def)
  show ?thesis
    using fails failing_document returns attached none only_when whole_only_when
    by (intro conjI allI impI) blast+
qed

theorem summary_failure_aborts_witness:
  "chat_completion (sample_env (Inr (Some jane_json)) (Inl (Error ''503 Service Unavailable'')))
       (ExtractFields ''doc'') = Inr (Some jane_json)
   \<and> json_parse (sample_env (Inr (Some jane_json)) (Inl (Error ''503 Service Unavailable'')))
       (cleanResult (reply_text (Some jane_json))) = Some (Obj [(''patientName'', Str ''Jane Doe'')])
   \<and> format_parsed (today (sample_env (Inr (Some jane_json)) (Inl (Error ''503 Service Unavailable''))))
       (Obj [(''patientName'', Str ''Jane Doe'')])
       = Inr (Obj [(''patientName'', Str ''Jane Doe''), (''date'', Str ''2026-11-02''),
                   (''doctorName'', Str []), (''diagnosis'', Str []), (''prescription'', Arr []),
                   (''notes'', Str []), (''recordType'', Str ''prescription'')])
   \<and> has_meaningful_data
        (Obj [(''patientName'', Str ''Jane Doe''), (''date'', Str ''2026-11-02''),
              (''doctorName'', Str []), (''diagnosis'', Str []), (''prescription'', Arr []),
              (''notes'', Str []), (''recordType'', Str ''prescription'')])
   \<and> chat_completion (sample_env (Inr (Some jane_json)) (Inl (Error ''503 Service Unavailable'')))
       (Summarize ''doc'') = Inl (Error ''503 Service Unavailable'')
   \<and> extractStructuredData
        (sample_env (Inr (Some jane_json)) (Inl (Error ''503 Service Unavailable''))) ''doc''
       = ([Chat (ExtractFields ''doc''), Chat (Summarize ''doc'')],
          Inl (Error ''Failed to parse AI response''))
   \<and> chat_completion (sample_env (Inr (Some jane_json)) (Inr (Some ''Visit of Jane Doe'')))
       (Summarize ''doc'') = Inr (Some ''Visit of Jane Doe'')
   \<and> extractStructuredData
        (sample_env (Inr (Some jane_json)) (Inr (Some ''Visit of Jane Doe''))) ''doc''
       = ([Chat (ExtractFields ''doc''), Chat (Summarize ''doc'')],
          Inr (Obj [(''patientName'', Str ''Jane Doe''), (''date'', Str ''2026-11-02''),
                    (''doctorName'', Str []), (''diagnosis'', Str []), (''prescription'', Arr []),
                    (''notes'', Str []), (''recordType'', Str ''prescription''),
                    (''summary'', Str ''Visit of Jane Doe'')]))"
proof -
  let ?sv = "sample_env (Inr (Some jane_json)) (Inl (Error ''503 Service Unavailable''))"
  let ?ok = "sample_env (Inr (Some jane_json)) (Inr (Some ''Visit of Jane Doe''))"
  let ?fd = "Obj [(''patientName'', Str ''Jane Doe''), (''date'', Str ''2026-11-02''),
                   (''doctorName'', Str []), (''diagnosis'', Str []), (''prescription'', Arr []),
                   (''notes'', Str []), (''recordType'', Str ''prescription'')]"
  have c: "chat_completion ?sv (ExtractFields ''doc'') = Inr (Some jane_json)"
    by (simp add: sample_env_def)
  have p: "json_parse ?sv (cleanResult (reply_text (Some jane_json)))
      = Some (Obj [(''patientName'', Str ''Jane Doe'')])"
    by (simp add: sample_simps)
  have f: "format_parsed (today ?sv) (Obj [(''patientName'', Str ''Jane Doe'')]) = Inr ?fd"
    by (simp add: format_parsed_def formattedData_def ensure_prescription_def js_or_def
        today_def sample_env_def)
  have m: "has_meaningful_data ?fd"
    by (simp add: has_meaningful_data_def)
  have s: "chat_completion ?sv (Summarize ''doc'') = Inl (Error ''503 Service Unavailable'')"
    by (simp add: sample_env_def)
  have c': "chat_completion ?ok (ExtractFields ''doc'') = Inr (Some jane_json)"
    by (simp add: sample_env_def)
  have p': "json_parse ?ok (cleanResult (reply_text (Some jane_json)))
      = Some (Obj [(''patientName'', Str ''Jane Doe'')])"
    by (simp add: sample_simps)
  have f': "format_parsed (today ?ok) (Obj [(''patientName'', Str ''Jane Doe'')]) = Inr ?fd"
    by (simp add: format_parsed_def formattedData_def ensure_prescription_def js_or_def
        today_def sample_env_def)
  have s': "chat_completion ?ok (Summarize ''doc'') = Inr (Some ''Visit of Jane Doe'')"
    by (simp add: sample_env_def)
  have failing: "extractStructuredData ?sv ''doc''
       = ([Chat (ExtractFields ''doc''), Chat (Summarize ''doc'')],
          Inl (Error ''Failed to parse AI response''))"
    using summary_failure_aborts [OF c p f m] s
    by (simp add: parse_failure_def)
  have returning: "extractStructuredData ?ok ''doc''
       = ([Chat (ExtractFields ''doc''), Chat (Summarize ''doc'')],
          Inr (set_summary ?fd ''Visit of Jane Doe''))"
    using summary_failure_aborts [OF c' p' f' m] s'
    by simp
  from failing returning c p f m s s' show ?thesis
    by simp
qed

text \<open>
  C8, as the claim has it, fails: the model's reply names a patient, the summary call
  fails, and the extraction returns an error, not a record with an empty summary.
\<close>

theorem summary_failure_counterexample:
  "snd (generateSummary (sample_env (Inr (Some jane_json)) (Inl (Error ''503 Service Unavailable'')))
         ''Patient: Jane Doe'') = Inl (Error ''503 Service Unavailable'')
   \<and> snd (extractStructuredData
         (sample_env (Inr (Some jane_json)) (Inl (Error ''503 Service Unavailable'')))
         ''Patient: Jane Doe'') = Inl (Error ''Failed to parse AI response'')
   \<and> snd (processDocument
         (sample_env (Inr (Some jane_json)) (Inl (Error ''503 Service Unavailable'')))
         \<lparr>path = ''uploads/scan.png'', mimetype = ''image/png'', originalname = ''scan.png''\<rparr>)
       = Inl (Error ''Failed to parse AI response'')"
proof -
  let ?sv = "sample_env (Inr (Some jane_json)) (Inl (Error ''503 Service Unavailable''))"
  have s: "snd (generateSummary ?sv ''Patient: Jane Doe'') = Inl (Error ''503 Service Unavailable'')"
    by (simp add: generateSummary_def sample_env_def)
  have e: "extractStructuredData ?sv ''Patient: Jane Doe''
      = ([Chat (ExtractFields ''Patient: Jane Doe''), Chat (Summarize ''Patient: Jane Doe'')],
         Inl (Error ''Failed to parse AI response''))"
    by (simp add: extract_simps sample_simps)
  have t: "extractText ?sv
      \<lparr>path = ''uploads/scan.png'', mimetype = ''image/png'', originalname = ''scan.png''\<rparr>
      = ([Recognize ''uploads/scan.png''], Inr ''Patient: Jane Doe'')"
    by (simp add: extractText_def read_text_def sample_env_def trim_def is_space_def)
  show ?thesis
    by (simp add: s e processDocument_def t)
qed

section \<open>A completion without content\<close>

lemma cleanResult_empty_object:
  "cleanResult ''{}'' = ''{}''"
  by (simp add: cleanResult_def trim_def is_space_def fence_open_def fence_close_def)

lemma format_parsed_empty_object:
  "format_parsed d (Obj []) = Inr (Obj (declared_defaults d))"
  by (simp add: format_parsed_def formattedData_def ensure_prescription_def js_or_def
      declared_defaults_def)

lemma no_meaningful_defaults:
  "\<not> has_meaningful_data (Obj (declared_defaults d))"
  by (simp add: has_meaningful_data_def declared_defaults_def js_or_def)

lemma format_parsed_Inl_iff:
  "(\<exists>e. format_parsed d parsedData = Inl e) \<longleftrightarrow> \<not> is_object_value parsedData"
  by (cases parsedData) (simp_all add: format_parsed_def is_object_value_def)

text \<open>
  C10, as the code has it. When the completion returns no content (or the empty string),
  the text '{}' stands for it; where JSON.parse reads '{}' as the empty object, the call
  makes no summary call and returns the record of the declared defaults: the empty string
  for patientName, doctorName, diagnosis and notes, the current date, the empty
  prescription list and the recordType 'prescription'. After a completion that returned,
  the call fails only with 'Failed to parse AI response', and only when the cleaned text
  is not valid JSON, or is the JSON of a value that is neither an object nor an array, or
  the summary call fails.
\<close>

theorem missing_content_defaults:
  assumes "json_parse sv ''{}'' = Some (Obj [])"
  shows "(chat_completion sv (ExtractFields doc) = Inr None
          \<or> chat_completion sv (ExtractFields doc) = Inr (Some []) \<longrightarrow>
            extractStructuredData sv doc
              = ([Chat (ExtractFields doc)], Inr (Obj (declared_defaults (today sv)))))
       \<and> (\<forall>content e. chat_completion sv (ExtractFields doc) = Inr content
             \<and> snd (extractStructuredData sv doc) = Inl e \<longrightarrow>
            e = parse_failure
            \<and> (json_parse sv (cleanResult (reply_text content)) = None
               \<or> (\<exists>parsedData. json_parse sv (cleanResult (reply_text content)) = Some parsedData
                    \<and> \<not> isArray parsedData \<and> (\<forall>props. parsedData \<noteq> Obj props))
               \<or> (\<exists>e'. chat_completion sv (Summarize doc) = Inl e')))"
proof (intro conjI allI impI)
  assume "chat_completion sv (ExtractFields doc) = Inr None
          \<or> chat_completion sv (ExtractFields doc) = Inr (Some [])"
  then obtain content where c: "chat_completion sv (ExtractFields doc) = Inr content"
    and r: "reply_text content = ''{}''"
    by (auto simp: reply_text_def)
  have "json_parse sv (cleanResult (reply_text content)) = Some (Obj [])"
    by (simp only: r cleanResult_empty_object assms)
  then show "extractStructuredData sv doc
      = ([Chat (ExtractFields doc)], Inr (Obj (declared_defaults (today sv))))"
    by (simp add: extractStructuredData_def c format_parsed_empty_object no_meaningful_defaults)
next
  fix content e
  assume a: "chat_completion sv (ExtractFields doc) = Inr content
      \<and> snd (extractStructuredData sv doc) = Inl e"
  then show "e = parse_failure"
    by (auto simp: extractStructuredData_def generateSummary_def
        split: option.splits sum.splits if_splits)
  show "json_parse sv (cleanResult (reply_text content)) = None
      \<or> (\<exists>parsedData. json_parse sv (cleanResult (reply_text content)) = Some parsedData
           \<and> \<not> isArray parsedData \<and> (\<forall>props. parsedData \<noteq> Obj props))
      \<or> (\<exists>e'. chat_completion sv (Summarize doc) = Inl e')"
  proof (cases "json_parse sv (cleanResult (reply_text content))")
    case None
    then show ?thesis by simp
  next
    case (Some parsedData)
    show ?thesis
    proof (cases "format_parsed (today sv) parsedData")
      case (Inl e1)
      then have "\<not> is_object_value parsedData"
        using format_parsed_Inl_iff [of "today sv" parsedData] by blast
      then have "\<not> isArray parsedData \<and> (\<forall>props. parsedData \<noteq> Obj props)"
        by (cases parsedData) (simp_all add: is_object_value_def)
      with Some show ?thesis by auto
    next
      case (Inr fd)
      with a Some have "\<exists>e'. chat_completion sv (Summarize doc) = Inl e'"
        by (auto simp: extractStructuredData_def generateSummary_def
            split: option.splits sum.splits if_splits)
      then show ?thesis by blast
    qed
  qed
qed

theorem missing_content_defaults_witness:
  "json_parse (sample_env (Inr None) (Inr (Some ''unused''))) ''{}'' = Some (Obj [])
   \<and> chat_completion (sample_env (Inr None) (Inr (Some ''unused''))) (ExtractFields ''doc'')
       = Inr None
   \<and> extractStructuredData (sample_env (Inr None) (Inr (Some ''unused''))) ''doc''
       = ([Chat (ExtractFields ''doc'')],
          Inr (Obj [(''patientName'', Str []), (''date'', Str ''2026-11-02''),
                    (''doctorName'', Str []), (''diagnosis'', Str []), (''prescription'', Arr []),
                    (''notes'', Str []), (''recordType'', Str ''prescription'')]))
   \<and> chat_completion (sample_env (Inr (Some ''Sorry, I cannot read this.'')) (Inr None))
       (ExtractFields ''doc'') = Inr (Some ''Sorry, I cannot read this.'')
   \<and> snd (extractStructuredData
        (sample_env (Inr (Some ''Sorry, I cannot read this.'')) (Inr None)) ''doc'')
       = Inl (Error ''Failed to parse AI response'')
   \<and> json_parse (sample_env (Inr (Some ''Sorry, I cannot read this.'')) (Inr None))
       (cleanResult (reply_text (Some ''Sorry, I cannot read this.''))) = None"
proof -
  let ?sv = "sample_env (Inr None) (Inr (Some ''unused''))"
  let ?bad = "sample_env (Inr (Some ''Sorry, I cannot read this.'')) (Inr None)"
  have p: "json_parse ?sv ''{}'' = Some (Obj [])"
    by (simp add: sample_env_def sample_parse_def)
  have c: "chat_completion ?sv (ExtractFields ''doc'') = Inr None"
    by (simp add: sample_env_def)
  have d: "today ?sv = ''2026-11-02''"
    by (simp add: today_def sample_env_def)
  have first: "extractStructuredData ?sv ''doc''
       = ([Chat (ExtractFields ''doc'')],
          Inr (Obj [(''patientName'', Str []), (''date'', Str ''2026-11-02''),
                    (''doctorName'', Str []), (''diagnosis'', Str []), (''prescription'', Arr []),
                    (''notes'', Str []), (''recordType'', Str ''prescription'')]))"
    using missing_content_defaults [OF p, of "''doc''"] c
    by (simp add: declared_defaults_def d)
  have p': "json_parse ?bad ''{}'' = Some (Obj [])"
    by (simp add: sample_env_def sample_parse_def)
  have c': "chat_completion ?bad (ExtractFields ''doc'')
      = Inr (Some ''Sorry, I cannot read this.'')"
    by (simp add: sample_env_def)
  have failed: "snd (extractStructuredData ?bad ''doc'') = Inl (Error ''Failed to parse AI response'')"
    by (simp add: extract_simps sample_simps)
  have summary: "\<not> (\<exists>e'. chat_completion ?bad (Summarize ''doc'') = Inl e')"
    by (simp add: sample_env_def)
  have no_value: "\<not> (\<exists>parsedData.
      json_parse ?bad (cleanResult (reply_text (Some ''Sorry, I cannot read this.'')))
        = Some parsedData \<and> \<not> isArray parsedData \<and> (\<forall>props. parsedData \<noteq> Obj props))"
    by (simp add: sample_simps)
  from missing_content_defaults [OF p', of "''doc''"] c' failed
  have "json_parse ?bad (cleanResult (reply_text (Some ''Sorry, I cannot read this.''))) = None
      \<or> (\<exists>parsedData.
           json_parse ?bad (cleanResult (reply_text (Some ''Sorry, I cannot read this.'')))
             = Some parsedData \<and> \<not> isArray parsedData \<and> (\<forall>props. parsedData \<noteq> Obj props))
      \<or> (\<exists>e'. chat_completion ?bad (Summarize ''doc'') = Inl e')"
    by blast
  with summary no_value
  have "json_parse ?bad (cleanResult (reply_text (Some ''Sorry, I cannot read this.''))) = None"
    by blast
  with first p c c' failed show ?thesis
    by simp
qed

text \<open>
  C10, as the claim has it, fails in its last part: the reply null is valid JSON, and
  the call still fails with the parse error.
\<close>

theorem valid_json_parse_error_counterexample:
  "json_parse (sample_env (Inr (Some ''null'')) (Inr None))
       (cleanResult (reply_text (Some ''null''))) = Some Null
   \<and> extractStructuredData (sample_env (Inr (Some ''null'')) (Inr None)) ''doc''
       = ([Chat (ExtractFields ''doc'')], Inl (Error ''Failed to parse AI response''))"
  by (simp add: extract_simps sample_simps)

section \<open>Text extraction\<close>

lemma trim_empty_iff:
  "trim s = [] \<longleftrightarrow> blank s"
proof
  assume "trim s = []"
  then have "\<forall>c \<in> set (dropWhile is_space s). is_space c"
    by (simp add: trim_def dropWhile_eq_Nil_conv)
  then have "dropWhile is_space s = []"
    using hd_dropWhile [of is_space s] hd_in_set [of "dropWhile is_space s"] by blast
  then show "blank s"
    by (simp add: blank_def list_all_iff dropWhile_eq_Nil_conv)
next
  assume "blank s"
  then show "trim s = []"
    by (auto simp: trim_def blank_def list_all_iff dest: set_dropWhileD)
qed

lemma blank_Nil:
  "blank []"
  by (simp add: blank_def)

lemma extractText_result:
  "snd (extractText sv f) =
     (case snd (read_text sv f) of
        Inl e \<Rightarrow> Inl (extraction_failure e)
      | Inr t \<Rightarrow> if blank t then Inl (extraction_failure no_text) else Inr t)"
  using blank_Nil
  by (auto simp: extractText_def trim_empty_iff split: prod.splits sum.splits)

lemma extractText_calls:
  "fst (extractText sv f) = fst (read_text sv f)"
  by (auto simp: extractText_def split: prod.splits sum.splits)

text \<open>
  C7. Text extraction fails, with an error whose message starts with 'Failed to extract
  text from document: ', whenever the OCR call, the file read or the PDF parse fails, and
  whenever the text they return is empty or white space only; it never returns a text
  that is empty or white space only.
\<close>

theorem extractText_fails_or_has_text:
  "(mimetype f \<noteq> ''application/pdf'' \<longrightarrow>
      (\<forall>e. recognize sv (path f) = Inl e \<longrightarrow>
           snd (extractText sv f) = Inl (extraction_failure e)))
   \<and> (mimetype f = ''application/pdf'' \<longrightarrow>
      (\<forall>e. readFileSync sv (path f) = Inl e \<longrightarrow>
           snd (extractText sv f) = Inl (extraction_failure e))
      \<and> (\<forall>buffer e. readFileSync sv (path f) = Inr buffer \<and> pdfParse sv buffer = Inl e \<longrightarrow>
           snd (extractText sv f) = Inl (extraction_failure e)))
   \<and> (\<forall>t. snd (read_text sv f) = Inr t \<and> blank t \<longrightarrow>
         snd (extractText sv f) = Inl (extraction_failure no_text))
   \<and> (\<forall>t. snd (extractText sv f) = Inr t \<longrightarrow> t \<noteq> [] \<and> \<not> blank t)
   \<and> (\<forall>e. snd (extractText sv f) = Inl e \<longrightarrow>
         prefix ''Failed to extract text from document: '' (message e))"
proof (intro conjI)
  show "mimetype f \<noteq> ''application/pdf'' \<longrightarrow>
      (\<forall>e. recognize sv (path f) = Inl e \<longrightarrow>
           snd (extractText sv f) = Inl (extraction_failure e))"
    by (simp add: extractText_result read_text_def)
  show "mimetype f = ''application/pdf'' \<longrightarrow>
      (\<forall>e. readFileSync sv (path f) = Inl e \<longrightarrow>
           snd (extractText sv f) = Inl (extraction_failure e))
      \<and> (\<forall>buffer e. readFileSync sv (path f) = Inr buffer \<and> pdfParse sv buffer = Inl e \<longrightarrow>
           snd (extractText sv f) = Inl (extraction_failure e))"
    by (simp add: extractText_result read_text_def)
  show "\<forall>t. snd (read_text sv f) = Inr t \<and> blank t \<longrightarrow>
         snd (extractText sv f) = Inl (extraction_failure no_text)"
    by (simp add: extractText_result)
  show "\<forall>t. snd (extractText sv f) = Inr t \<longrightarrow> t \<noteq> [] \<and> \<not> blank t"
    using blank_Nil by (auto simp: extractText_result split: sum.splits if_splits)
  show "\<forall>e. snd (extractText sv f) = Inl e \<longrightarrow>
         prefix ''Failed to extract text from document: '' (message e)"
    by (auto simp: extractText_result extraction_failure_def split: sum.splits if_splits)
qed

theorem extractText_fails_or_has_text_witness:
  "mimetype \<lparr>path = ''uploads/scan.png'', mimetype = ''image/png'', originalname = ''scan.png''\<rparr>
     \<noteq> ''application/pdf''
   \<and> recognize ((sample_env (Inr None) (Inr None))\<lparr>recognize := \<lambda>p. Inl (Error ''corrupt image'')\<rparr>)
       (path \<lparr>path = ''uploads/scan.png'', mimetype = ''image/png'', originalname = ''scan.png''\<rparr>)
       = Inl (Error ''corrupt image'')
   \<and> snd (extractText
         ((sample_env (Inr None) (Inr None))\<lparr>recognize := \<lambda>p. Inl (Error ''corrupt image'')\<rparr>)
         \<lparr>path = ''uploads/scan.png'', mimetype = ''image/png'', originalname = ''scan.png''\<rparr>)
       = Inl (Error ''Failed to extract text from document: corrupt image'')
   \<and> prefix ''Failed to extract text from document: ''
        (message (Error ''Failed to extract text from document: corrupt image''))"
proof -
  let ?sv = "(sample_env (Inr None) (Inr None))\<lparr>recognize := \<lambda>p. Inl (Error ''corrupt image'')\<rparr>"
  let ?f = "\<lparr>path = ''uploads/scan.png'', mimetype = ''image/png'', originalname = ''scan.png''\<rparr>"
  have m: "mimetype ?f \<noteq> ''application/pdf''"
    by simp
  have r: "recognize ?sv (path ?f) = Inl (Error ''corrupt image'')"
    by simp
  from extractText_fails_or_has_text [of ?f ?sv] m r
  have "snd (extractText ?sv ?f) = Inl (extraction_failure (Error ''corrupt image''))"
    by blast
  with m r show ?thesis
    by (simp add: extraction_failure_def)
qed

section \<open>The MIME type\<close>

text \<open>
  C4, as the code has it. The text extractor does not validate the MIME type and has no
  error for an unsupported format. A file declared application/pdf is read and its buffer
  given to the PDF parser: a failed read or a failed parse fails the extraction, and the
  parser's text is returned unless it is blank. A file of any other declared MIME type is
  given to OCR, whose text is returned unless OCR fails or the text is blank.
\<close>

theorem extractText_any_other_type_ocr:
  "(mimetype f \<noteq> ''application/pdf'' \<longrightarrow>
      extractText sv f =
        ([Recognize (path f)],
         case recognize sv (path f) of
           Inl e \<Rightarrow> Inl (extraction_failure e)
         | Inr t \<Rightarrow> if blank t then Inl (extraction_failure no_text) else Inr t))
   \<and> (mimetype f = ''application/pdf'' \<longrightarrow>
      (\<forall>e. readFileSync sv (path f) = Inl e \<longrightarrow>
           extractText sv f = ([ReadFile (path f)], Inl (extraction_failure e)))
      \<and> (\<forall>buffer. readFileSync sv (path f) = Inr buffer \<longrightarrow>
           extractText sv f =
             ([ReadFile (path f), PdfParse buffer],
              case pdfParse sv buffer of
                Inl e \<Rightarrow> Inl (extraction_failure e)
              | Inr t \<Rightarrow> if blank t then Inl (extraction_failure no_text) else Inr t))
      \<and> Recognize (path f) \<notin> set (fst (extractText sv f))
      \<and> hd (fst (extractText sv f)) = ReadFile (path f))"
proof -
  have whole: "extractText sv f = (fst (read_text sv f),
      case snd (read_text sv f) of
        Inl e \<Rightarrow> Inl (extraction_failure e)
      | Inr t \<Rightarrow> if blank t then Inl (extraction_failure no_text) else Inr t)"
    using extractText_result [of sv f] extractText_calls [of sv f]
    by (cases "extractText sv f") simp
  show ?thesis
    unfolding whole by (auto simp: read_text_def split: sum.splits)
qed

theorem extractText_any_other_type_ocr_witness:
  "mimetype \<lparr>path = ''uploads/a.zip'', mimetype = ''application/zip'', originalname = ''a.zip''\<rparr>
     \<noteq> ''application/pdf''
   \<and> extractText
        ((sample_env (Inr None) (Inr None))\<lparr>recognize := \<lambda>p. Inl (Error ''corrupt image'')\<rparr>)
        \<lparr>path = ''uploads/a.zip'', mimetype = ''application/zip'', originalname = ''a.zip''\<rparr>
       = ([Recognize ''uploads/a.zip''],
          Inl (Error ''Failed to extract text from document: corrupt image''))
   \<and> mimetype \<lparr>path = ''uploads/a.pdf'', mimetype = ''application/pdf'', originalname = ''a.pdf''\<rparr>
       = ''application/pdf''
   \<and> readFileSync (sample_env (Inr None) (Inr None)) ''uploads/a.pdf'' = Inr ''%PDF-1.4''
   \<and> extractText (sample_env (Inr None) (Inr None))
        \<lparr>path = ''uploads/a.pdf'', mimetype = ''application/pdf'', originalname = ''a.pdf''\<rparr>
       = ([ReadFile ''uploads/a.pdf'', PdfParse ''%PDF-1.4''], Inr ''Patient: John Smith'')"
proof -
  let ?zip = "\<lparr>path = ''uploads/a.zip'', mimetype = ''application/zip'', originalname = ''a.zip''\<rparr>"
  let ?pdf = "\<lparr>path = ''uploads/a.pdf'', mimetype = ''application/pdf'', originalname = ''a.pdf''\<rparr>"
  let ?bad = "(sample_env (Inr None) (Inr None))\<lparr>recognize := \<lambda>p. Inl (Error ''corrupt image'')\<rparr>"
  let ?sv = "sample_env (Inr None) (Inr None)"
  have ocr: "extractText ?bad ?zip
      = ([Recognize ''uploads/a.zip''],
         Inl (Error ''Failed to extract text from document: corrupt image''))"
    using extractText_any_other_type_ocr [of ?zip ?bad]
    by (simp add: extraction_failure_def)
  have buffer: "readFileSync ?sv ''uploads/a.pdf'' = Inr ''%PDF-1.4''"
    by (simp add: sample_env_def)
  have parsed: "pdfParse ?sv ''%PDF-1.4'' = Inr ''Patient: John Smith''"
    by (simp add: sample_env_def)
  have "extractText ?sv ?pdf
      = ([ReadFile ''uploads/a.pdf'', PdfParse ''%PDF-1.4''], Inr ''Patient: John Smith'')"
    using extractText_any_other_type_ocr [of ?pdf ?sv] buffer
    by (simp add: parsed blank_def is_space_def)
  with ocr buffer show ?thesis
    by simp
qed

text \<open>
  C4, as the claim has it, fails: a file declared text/plain is given to OCR, and the
  text OCR reads is returned.
\<close>

theorem unsupported_mime_counterexample:
  "mimetype \<lparr>path = ''uploads/notes.txt'', mimetype = ''text/plain'', originalname = ''notes.txt''\<rparr>
     \<noteq> ''application/pdf''
   \<and> extractText (sample_env (Inr None) (Inr None))
       \<lparr>path = ''uploads/notes.txt'', mimetype = ''text/plain'', originalname = ''notes.txt''\<rparr>
       = ([Recognize ''uploads/notes.txt''], Inr ''Patient: Jane Doe'')"
  by (simp add: extractText_def read_text_def sample_env_def trim_def is_space_def)

section \<open>The vector store\<close>

lemma step_keeps_processor:
  "fst (step p x) = p"
proof -
  obtain sv op where x: "x = (sv, op)"
    by (cases x)
  show ?thesis
    unfolding x by (cases op) (simp_all add: searchSimilarDocuments_def Let_def)
qed

lemma run_keeps_processor:
  "fst (run p xs) = p"
proof (induction xs)
  case Nil
  show ?case by simp
next
  case (Cons x xs)
  obtain out where out: "step p x = (p, out)"
    using step_keeps_processor [of p x] by (cases "step p x") simp
  obtain p' outs where rest: "run p xs = (p', outs)"
    by (cases "run p xs")
  with Cons out show ?case
    by simp
qed

lemma run_outcomes:
  "snd (run p xs) = map (\<lambda>x. snd (step p x)) xs"
proof (induction xs)
  case Nil
  show ?case by simp
next
  case (Cons x xs)
  obtain out where out: "step p x = (p, out)"
    using step_keeps_processor [of p x] by (cases "step p x") simp
  obtain p' outs where rest: "run p xs = (p', outs)"
    by (cases "run p xs")
  with Cons out show ?case
    by simp
qed

lemma search_over_store:
  "snd (snd (searchSimilarDocuments sv p query limit_arg)) =
     similaritySearch sv (vectorStore p) query (case limit_arg of None \<Rightarrow> 5 | Some k \<Rightarrow> k)"
  by (simp add: searchSimilarDocuments_def Let_def)

text \<open>
  C9. No call of processDocument or searchSimilarDocuments adds an entry to the vector
  store: after any sequence of such calls on a new processor the store is empty, every
  search made in the sequence and every search made after it is the library's search over
  the empty store, for every query and every limit, and, the library returning only
  entries of the store, a search that returns, returns the empty sequence.
\<close>

theorem vector_store_stays_empty:
  "vectorStore (fst (run new_processor steps)) = []
   \<and> (\<forall>i < length steps. \<forall>sv query limit_arg.
         steps ! i = (sv, SearchSimilarDocuments query limit_arg) \<longrightarrow>
         snd (run new_processor steps) ! i =
           Found (similaritySearch sv [] query (case limit_arg of None \<Rightarrow> 5 | Some k \<Rightarrow> k)))
   \<and> snd (snd (searchSimilarDocuments sv (fst (run new_processor steps)) query limit_arg)) =
       similaritySearch sv [] query (case limit_arg of None \<Rightarrow> 5 | Some k \<Rightarrow> k)
   \<and> (results_from_store sv \<longrightarrow>
       (\<forall>rs. snd (snd (searchSimilarDocuments sv (fst (run new_processor steps)) query limit_arg))
               = Inr rs \<longrightarrow> rs = []))"
proof (intro conjI)
  show "vectorStore (fst (run new_processor steps)) = []"
    by (simp add: run_keeps_processor new_processor_def)
  show "\<forall>i < length steps. \<forall>sv query limit_arg.
         steps ! i = (sv, SearchSimilarDocuments query limit_arg) \<longrightarrow>
         snd (run new_processor steps) ! i =
           Found (similaritySearch sv [] query (case limit_arg of None \<Rightarrow> 5 | Some k \<Rightarrow> k))"
    by (simp add: run_outcomes searchSimilarDocuments_def Let_def new_processor_def)
  show search: "snd (snd (searchSimilarDocuments sv (fst (run new_processor steps)) query limit_arg)) =
       similaritySearch sv [] query (case limit_arg of None \<Rightarrow> 5 | Some k \<Rightarrow> k)"
    by (simp add: search_over_store run_keeps_processor new_processor_def)
  show "results_from_store sv \<longrightarrow>
       (\<forall>rs. snd (snd (searchSimilarDocuments sv (fst (run new_processor steps)) query limit_arg))
               = Inr rs \<longrightarrow> rs = [])"
    unfolding search results_from_store_def by fastforce
qed

theorem vector_store_stays_empty_witness:
  "results_from_store (sample_env (Inr (Some jane_json)) (Inr None))
   \<and> vectorStore (fst (run new_processor
        [(sample_env (Inr (Some jane_json)) (Inr None),
          ProcessDocument \<lparr>path = ''uploads/scan.png'', mimetype = ''image/png'',
                           originalname = ''scan.png''\<rparr>),
         (sample_env (Inr (Some jane_json)) (Inr None),
          SearchSimilarDocuments ''headache'' (Some 3))])) = []
   \<and> snd (snd (searchSimilarDocuments (sample_env (Inr (Some jane_json)) (Inr None))
        (fst (run new_processor
        [(sample_env (Inr (Some jane_json)) (Inr None),
          ProcessDocument \<lparr>path = ''uploads/scan.png'', mimetype = ''image/png'',
                           originalname = ''scan.png''\<rparr>),
         (sample_env (Inr (Some jane_json)) (Inr None),
          SearchSimilarDocuments ''headache'' (Some 3))]))
        ''Jane Doe'' None)) = Inr []"
proof -
  let ?sv = "sample_env (Inr (Some jane_json)) (Inr None)"
  let ?steps = "[(?sv, ProcessDocument \<lparr>path = ''uploads/scan.png'', mimetype = ''image/png'',
                           originalname = ''scan.png''\<rparr>),
                 (?sv, SearchSimilarDocuments ''headache'' (Some 3))]"
  have contract: "results_from_store ?sv"
    by (auto simp: results_from_store_def sample_env_def dest: in_set_takeD)
  have "similaritySearch ?sv [] ''Jane Doe'' 5 = Inr []"
    by (simp add: sample_env_def)
  with vector_store_stays_empty [of ?steps ?sv "''Jane Doe''" None] contract show ?thesis
    by simp
qed

end
